theory Spec2Isabelle
  imports Complex_Main
begin

section \<open>Azure DevOps proxy API: a shallow embedding of \<^verbatim>\<open>src/api/index.py\<close>\<close>

text \<open>
  Conventions of the embedding.
  \<^item> A Python \<^verbatim>\<open>str\<close> is a \<open>string\<close> whose characters are read as Unicode code points
    0 to 255; strings with larger code points are outside the model.
  \<^item> A Python \<^verbatim>\<open>int\<close> is an \<open>int\<close>; a \<^verbatim>\<open>float\<close> (the field \<^verbatim>\<open>effort\<close>, a
    number in a JSON document) is a \<open>real\<close>: the code does no arithmetic on floats, it
    carries them and tests them for zero. Infinities and NaN are outside the model.
  \<^item> A parsed JSON document is a value of \<open>json\<close>; a \<^verbatim>\<open>dict\<close> is an association list
    (keys of a parsed document are distinct).
  \<^item> Every \<^verbatim>\<open>raise\<close> is a value of \<open>exn\<close>; handlers return \<open>exn + 'a\<close>.
  \<^item> The upstream service is a function from the outbound request to either a transport
    failure or a response; every handler also returns the list of outbound requests it
    made, in order.
\<close>

subsection \<open>JSON values and Python truthiness\<close>

datatype json =
    JNull
  | JBool bool
  | JInt int
  | JFloat real
  | JStr string
  | JArr "json list"
  | JObj "(string \<times> json) list"

text \<open>\<^verbatim>\<open>bool(v)\<close> for a value that came out of \<^verbatim>\<open>json.loads\<close>.\<close>

fun truthy :: "json \<Rightarrow> bool" where
  "truthy JNull = False"
| "truthy (JBool b) = b"
| "truthy (JInt i) = (i \<noteq> 0)"
| "truthy (JFloat r) = (r \<noteq> 0)"
| "truthy (JStr s) = (s \<noteq> [])"
| "truthy (JArr xs) = (xs \<noteq> [])"
| "truthy (JObj kvs) = (kvs \<noteq> [])"

text \<open>\<^verbatim>\<open>a or b\<close>.\<close>

definition py_or :: "json \<Rightarrow> json \<Rightarrow> json" where
  "py_or a b = (if truthy a then a else b)"

text \<open>
  The exceptions the code can meet. \<open>RuntimeError\<close> stands for the class with its
  subclasses (a handler registered for a class takes them too), \<open>HTTPError\<close> for
  \<^verbatim>\<open>httpx.HTTPError\<close> and its subclasses; the string is \<^verbatim>\<open>str(exc)\<close>.
\<close>

datatype exn =
    RuntimeError string
  | HTTPError string
  | HTTPException int json
  | ValueError string
  | JSONDecodeError
  | AttributeError
  | TypeError

text \<open>\<^verbatim>\<open>d.get(k)\<close> and \<^verbatim>\<open>d.get(k, default)\<close>: only a \<^verbatim>\<open>dict\<close> has \<^verbatim>\<open>get\<close>.\<close>

fun dict_get_default :: "json \<Rightarrow> string \<Rightarrow> json \<Rightarrow> exn + json" where
  "dict_get_default (JObj kvs) k d = Inr (case map_of kvs k of Some v \<Rightarrow> v | None \<Rightarrow> d)"
| "dict_get_default _ k d = Inl AttributeError"

definition dict_get :: "json \<Rightarrow> string \<Rightarrow> exn + json" where
  "dict_get j k = dict_get_default j k JNull"

subsection \<open>Strings: \<^verbatim>\<open>str.strip\<close>, \<^verbatim>\<open>str.lower\<close>, \<^verbatim>\<open>str(int)\<close>\<close>

definition py_isspace :: "char \<Rightarrow> bool" where
  "py_isspace c =
     (let n = (of_char c :: nat)
      in (9 \<le> n \<and> n \<le> 13) \<or> (28 \<le> n \<and> n \<le> 32) \<or> n = 133 \<or> n = 160)"

definition py_strip :: "string \<Rightarrow> string" where
  "py_strip s = rev (dropWhile py_isspace (rev (dropWhile py_isspace s)))"

definition lower_char :: "char \<Rightarrow> char" where
  "lower_char c =
     (let n = (of_char c :: nat)
      in if (65 \<le> n \<and> n \<le> 90) \<or> (192 \<le> n \<and> n \<le> 222 \<and> n \<noteq> 215)
         then char_of (n + 32) else c)"

definition py_lower :: "string \<Rightarrow> string" where
  "py_lower s = map lower_char s"

definition digit_char :: "nat \<Rightarrow> char" where
  "digit_char d = ''0123456789'' ! d"

function str_nat :: "nat \<Rightarrow> string" where
  "str_nat n = (if n < 10 then [digit_char n] else str_nat (n div 10) @ [digit_char (n mod 10)])"
  by pat_completeness auto
termination
  by (relation "measure (\<lambda>n. n)") auto

declare str_nat.simps [simp del]

text \<open>\<^verbatim>\<open>str(i)\<close>, also what an f-string does with an \<^verbatim>\<open>int\<close>.\<close>

definition str_int :: "int \<Rightarrow> string" where
  "str_int i = (if i < 0 then CHR ''-'' # str_nat (nat (- i)) else str_nat (nat i))"

text \<open>Reading a decimal numeral back, to say what "decimal rendering" means.\<close>

definition is_digit :: "char \<Rightarrow> bool" where
  "is_digit c = (let n = (of_char c :: nat) in 48 \<le> n \<and> n \<le> 57)"

definition digit_val :: "char \<Rightarrow> nat" where
  "digit_val c = of_char c - 48"

definition decimal_nat :: "string \<Rightarrow> nat" where
  "decimal_nat s = foldl (\<lambda>a c. 10 * a + digit_val c) 0 s"

definition decimal_int :: "string \<Rightarrow> int option" where
  "decimal_int s =
     (case s of
        [] \<Rightarrow> None
      | c # cs \<Rightarrow>
          if c = CHR ''-'' then
            (if cs \<noteq> [] \<and> list_all is_digit cs then Some (- int (decimal_nat cs)) else None)
          else if list_all is_digit s then Some (int (decimal_nat s)) else None)"

subsection \<open>Configuration and the authorization header\<close>

type_synonym environ = "string \<Rightarrow> string option"

definition config_error_message :: string where
  "config_error_message =
     ''Error: El servidor no tiene la configuraci'' @ [CHR 0xF3] @
     ''n necesaria (AZURE_DEVOPS_ORG, AZURE_DEVOPS_PAT).''"

text \<open>\<^verbatim>\<open>not org\<close> holds for a missing variable and for an empty one.\<close>

definition get_azure_config :: "environ \<Rightarrow> exn + (string \<times> string)" where
  "get_azure_config env =
     (case (env ''AZURE_DEVOPS_ORG'', env ''AZURE_DEVOPS_PAT'') of
        (Some org, Some pat) \<Rightarrow>
          if org = [] \<or> pat = [] then Inl (RuntimeError config_error_message)
          else Inr (org, pat)
      | _ \<Rightarrow> Inl (RuntimeError config_error_message))"

text \<open>\<^verbatim>\<open>s.encode("utf-8")\<close> for code points below 256.\<close>

definition utf8_char :: "char \<Rightarrow> nat list" where
  "utf8_char c =
     (let n = (of_char c :: nat) in if n < 128 then [n] else [192 + n div 64, 128 + n mod 64])"

definition utf8 :: "string \<Rightarrow> nat list" where
  "utf8 s = concat (map utf8_char s)"

definition b64_alphabet :: string where
  "b64_alphabet = ''ABCDEFGHIJKLMNOPQRSTUVWXYZabcdefghijklmnopqrstuvwxyz0123456789+/''"

definition b64 :: "nat \<Rightarrow> char" where
  "b64 n = b64_alphabet ! (n mod 64)"

fun b64encode :: "nat list \<Rightarrow> string" where
  "b64encode [] = []"
| "b64encode [a] = [b64 (a div 4), b64 ((a mod 4) * 16), CHR ''='', CHR ''='']"
| "b64encode [a, b] =
     [b64 (a div 4), b64 ((a mod 4) * 16 + b div 16), b64 ((b mod 16) * 4), CHR ''='']"
| "b64encode (a # b # c # rest) =
     [b64 (a div 4), b64 ((a mod 4) * 16 + b div 16), b64 ((b mod 16) * 4 + c div 64),
      b64 (c mod 64)] @ b64encode rest"

definition build_auth_header :: "string \<Rightarrow> string" where
  "build_auth_header pat = ''Basic '' @ b64encode (utf8 (CHR '':'' # pat))"

subsection \<open>Outbound HTTP\<close>

record http_request =
  meth :: string
  url :: string
  headers :: "(string \<times> string) list"
  body :: "json option"

text \<open>
  \<open>resp_json\<close> is the outcome of \<^verbatim>\<open>resp.json()\<close>: \<open>Inr j\<close> when it returns \<open>j\<close>,
  \<open>Inl e\<close> when it raises \<open>e\<close> (\<^verbatim>\<open>JSONDecodeError\<close> on a body that is not JSON; the
  \<^verbatim>\<open>RecursionError\<close> of a body nested too deeply is a \<^verbatim>\<open>RuntimeError\<close>).
\<close>

record http_response =
  status_code :: int
  resp_text :: string
  resp_json :: "exn + json"

text \<open>\<open>Inl m\<close>: the client raised an \<^verbatim>\<open>httpx.HTTPError\<close> whose \<^verbatim>\<open>str\<close> is \<open>m\<close>.\<close>

type_synonym upstream = "http_request \<Rightarrow> string + http_response"

text \<open>
  The block
  \<^verbatim>\<open>try: content = resp.json()
  except Exception: content = {"raw_text": resp.text}\<close>
\<close>

definition json_or_raw_text :: "http_response \<Rightarrow> json" where
  "json_or_raw_text resp =
     (case resp_json resp of
        Inr j \<Rightarrow> j
      | Inl e \<Rightarrow> JObj [(''raw_text'', JStr (resp_text resp))])"

subsection \<open>Replies and the exception handlers\<close>

datatype validation_error =
    EmailError string
  | GreaterEqualError string int
  | LessEqualError string int
  | ValidatorError string string

text \<open>
  What the caller receives: a JSON response with a status, the framework's 422 answer to
  a body that fails validation, or its plain 500 answer to an exception no handler takes.
\<close>

datatype reply =
    JSONResponse int json
  | ValidationErrorResponse "validation_error list"
  | InternalServerError

fun reply_status :: "reply \<Rightarrow> int" where
  "reply_status (JSONResponse s c) = s"
| "reply_status (ValidationErrorResponse errs) = 422"
| "reply_status InternalServerError = 500"

definition runtime_error_handler :: "string \<Rightarrow> reply" where
  "runtime_error_handler exc = JSONResponse 500 (JObj [(''detail'', JStr exc)])"

definition httpx_error_handler :: "string \<Rightarrow> reply" where
  "httpx_error_handler exc =
     JSONResponse 502
       (JObj [(''detail'',
               JStr (''Error en la comunicaci'' @ [CHR 0xF3] @ ''n con Azure DevOps: '' @ exc))])"

text \<open>
  The two registered handlers, the framework's handler for \<^verbatim>\<open>HTTPException\<close>
  (status and \<^verbatim>\<open>{"detail": ...}\<close>), and the 500 for everything else.
\<close>

fun handle_exception :: "exn \<Rightarrow> reply" where
  "handle_exception (RuntimeError m) = runtime_error_handler m"
| "handle_exception (HTTPError m) = httpx_error_handler m"
| "handle_exception (HTTPException s d) = JSONResponse s (JObj [(''detail'', d)])"
| "handle_exception _ = InternalServerError"

subsection \<open>\<^verbatim>\<open>GET /projects\<close>\<close>

definition projects_request :: "string \<Rightarrow> string \<Rightarrow> http_request" where
  "projects_request org pat =
     \<lparr>meth = ''GET'',
      url = ''https://dev.azure.com/'' @ org @ ''/_apis/projects?api-version=7.1-preview'',
      headers = [(''Authorization'', build_auth_header pat), (''Accept'', ''application/json'')],
      body = None\<rparr>"

definition list_projects :: "environ \<Rightarrow> upstream \<Rightarrow> (exn + reply) \<times> http_request list" where
  "list_projects env up =
     (case get_azure_config env of
        Inl e \<Rightarrow> (Inl e, [])
      | Inr (org, pat) \<Rightarrow>
          let req = projects_request org pat in
          (case up req of
             Inl m \<Rightarrow> (Inl (HTTPError m), [req])
           | Inr resp \<Rightarrow>
               if status_code resp \<ge> 400 then
                 (Inl (HTTPException 502
                    (JObj [(''message'', JStr ''Azure DevOps API error fetching projects''),
                           (''azure_status'', JInt (status_code resp)),
                           (''azure_response'', json_or_raw_text resp)])), [req])
               else
                 (case resp_json resp of
                    Inl e \<Rightarrow> (Inl e, [req])
                  | Inr j \<Rightarrow> (Inr (JSONResponse 200 j), [req]))))"

subsection \<open>The tester lookup\<close>

definition lookup_request :: "string \<Rightarrow> string \<Rightarrow> string \<Rightarrow> http_request" where
  "lookup_request org pat display_name =
     \<lparr>meth = ''GET'',
      url = ''https://vsaex.dev.azure.com/'' @ org @ ''/_apis/userentitlements'' @
            ''?api-version=6.0-preview.3&$filter=name eq '' @ [CHR 0x27] @ display_name @
            [CHR 0x27],
      headers = [(''Authorization'', build_auth_header pat), (''Accept'', ''application/json'')],
      body = None\<rparr>"

text \<open>\<^verbatim>\<open>name.strip().lower() == display_name.strip().lower()\<close>\<close>

definition names_equal :: "string \<Rightarrow> string \<Rightarrow> bool" where
  "names_equal name display_name = (py_lower (py_strip name) = py_lower (py_strip display_name))"

text \<open>\<^verbatim>\<open>user.get("user", {}).get(k)\<close>\<close>

definition user_attr :: "json \<Rightarrow> string \<Rightarrow> exn + json" where
  "user_attr user k =
     (case dict_get_default user ''user'' (JObj []) of
        Inl e \<Rightarrow> Inl e
      | Inr u \<Rightarrow> dict_get u k)"

text \<open>\<^verbatim>\<open>user.get("user", {}).get("displayName") or user.get("name", "")\<close>\<close>

definition user_name :: "json \<Rightarrow> exn + json" where
  "user_name user =
     (case user_attr user ''displayName'' of
        Inl e \<Rightarrow> Inl e
      | Inr dn \<Rightarrow> if truthy dn then Inr dn else dict_get_default user ''name'' (JStr []))"

text \<open>
  The \<^verbatim>\<open>for user in users\<close> loop. \<^verbatim>\<open>name.strip()\<close> raises on anything but a string.
\<close>

fun find_user_loop :: "string \<Rightarrow> json list \<Rightarrow> exn + json option" where
  "find_user_loop display_name [] = Inr None"
| "find_user_loop display_name (user # users) =
     (case user_name user of
        Inl e \<Rightarrow> Inl e
      | Inr (JStr name) \<Rightarrow>
          if names_equal name display_name then
            (case user_attr user ''principalName'' of
               Inl e \<Rightarrow> Inl e
             | Inr princ \<Rightarrow>
                 if truthy princ then Inr (Some princ)
                 else
                   (case user_attr user ''mailAddress'' of
                      Inl e \<Rightarrow> Inl e
                    | Inr mail \<Rightarrow>
                        if truthy mail then Inr (Some mail)
                        else find_user_loop display_name users))
          else find_user_loop display_name users
      | Inr _ \<Rightarrow> Inl AttributeError)"

text \<open>\<^verbatim>\<open>users = data.get("members") or data.get("value") or []\<close>\<close>

definition users_of :: "json \<Rightarrow> exn + json" where
  "users_of data =
     (case dict_get data ''members'' of
        Inl e \<Rightarrow> Inl e
      | Inr ms \<Rightarrow>
          if truthy ms then Inr ms
          else (case dict_get data ''value'' of
                  Inl e \<Rightarrow> Inl e
                | Inr vs \<Rightarrow> Inr (py_or vs (JArr []))))"

text \<open>
  Iterating over \<open>users\<close>: a list is walked; a string or dict yields strings, and
  \<^verbatim>\<open>.get\<close> raises on the first of them; a number, \<^verbatim>\<open>True\<close> or \<^verbatim>\<open>None\<close> is not
  iterable.
\<close>

fun find_user_in :: "string \<Rightarrow> json \<Rightarrow> exn + json option" where
  "find_user_in display_name (JArr users) = find_user_loop display_name users"
| "find_user_in display_name (JStr s) = (if s = [] then Inr None else Inl AttributeError)"
| "find_user_in display_name (JObj kvs) = (if kvs = [] then Inr None else Inl AttributeError)"
| "find_user_in display_name _ = Inl TypeError"

definition find_user_principal_name ::
  "upstream \<Rightarrow> string \<Rightarrow> string \<Rightarrow> string \<Rightarrow> (exn + json option) \<times> http_request list" where
  "find_user_principal_name up org pat display_name =
     (let req = lookup_request org pat display_name in
      case up req of
        Inl m \<Rightarrow> (Inl (HTTPError m), [req])
      | Inr resp \<Rightarrow>
          if status_code resp \<ge> 400 then (Inr None, [req])
          else
            (case resp_json resp of
               Inl e \<Rightarrow> (Inl e, [req])
             | Inr data \<Rightarrow>
                 (case users_of data of
                    Inl e \<Rightarrow> (Inl e, [req])
                  | Inr users \<Rightarrow> (find_user_in display_name users, [req]))))"

subsection \<open>\<^verbatim>\<open>BugCreateRequest\<close> and its validation\<close>

record BugCreateRequest =
  project :: string
  userStoryId :: int
  title :: string
  assignedTo :: string
  reproSteps :: string
  effort :: real
  cliente :: string
  priority :: int
  severity :: string
  activity :: string
  tipoDeError :: string
  fechaInicioPlaneada :: string
  responsableBug :: string
  aplicacion :: string
  tareaAsociada :: int
  versionAplicacion :: string
  funcionalidad :: string

text \<open>
  \<^verbatim>\<open>datetime.strptime(v, "%Y-%m-%d")\<close>. The library turns the format into the regular
  expression
  \<^verbatim>\<open>(?P<Y>\d\d\d\d)-(?P<m>1[0-2]|0[1-9]|[1-9])-(?P<d>3[0-1]|[1-2]\d|0[1-9]|[1-9]| [1-9])\<close>,
  matches it at the start of the string, refuses text left over after the match, and
  builds a date from the three numbers. A matcher returns the ways a pattern matches a
  prefix, as pairs of matched text and remainder, in the order a backtracking matcher
  tries them.
\<close>

type_synonym matcher = "string \<Rightarrow> (string \<times> string) list"

definition cls :: "(char \<Rightarrow> bool) \<Rightarrow> matcher" where
  "cls P s = (case s of [] \<Rightarrow> [] | c # r \<Rightarrow> if P c then [([c], r)] else [])"

definition seq :: "matcher \<Rightarrow> matcher \<Rightarrow> matcher" where
  "seq m1 m2 s = concat (map (\<lambda>(a, r). map (\<lambda>(b, r'). (a @ b, r')) (m2 r)) (m1 s))"

definition alt :: "matcher \<Rightarrow> matcher \<Rightarrow> matcher" where
  "alt m1 m2 s = m1 s @ m2 s"

definition in_range :: "char \<Rightarrow> char \<Rightarrow> char \<Rightarrow> bool" where
  "in_range lo hi c = ((of_char lo :: nat) \<le> of_char c \<and> (of_char c :: nat) \<le> of_char hi)"

definition chr :: "char \<Rightarrow> matcher" where
  "chr x = cls (\<lambda>c. c = x)"

definition re_Y :: matcher where
  "re_Y = seq (cls is_digit) (seq (cls is_digit) (seq (cls is_digit) (cls is_digit)))"

definition re_m :: matcher where
  "re_m = alt (seq (chr CHR ''1'') (cls (in_range CHR ''0'' CHR ''2'')))
         (alt (seq (chr CHR ''0'') (cls (in_range CHR ''1'' CHR ''9'')))
              (cls (in_range CHR ''1'' CHR ''9'')))"

definition re_d :: matcher where
  "re_d = alt (seq (chr CHR ''3'') (cls (in_range CHR ''0'' CHR ''1'')))
         (alt (seq (cls (in_range CHR ''1'' CHR ''2'')) (cls is_digit))
         (alt (seq (chr CHR ''0'') (cls (in_range CHR ''1'' CHR ''9'')))
         (alt (cls (in_range CHR ''1'' CHR ''9''))
              (seq (chr CHR '' '') (cls (in_range CHR ''1'' CHR ''9''))))))"

text \<open>The first match of the whole pattern: the three groups and the text left over.\<close>

definition strptime_match :: "string \<Rightarrow> (string \<times> string \<times> string \<times> string) option" where
  "strptime_match s =
     (case concat (map (\<lambda>(y, s1). concat (map (\<lambda>(d1, s2). concat (map (\<lambda>(m, s3).
             concat (map (\<lambda>(d2, s4). map (\<lambda>(d, rest). (y, m, d, rest)) (re_d s4))
               (chr CHR ''-'' s3))) (re_m s2))) (chr CHR ''-'' s1))) (re_Y s)) of
        [] \<Rightarrow> None
      | found # _ \<Rightarrow> Some found)"

definition is_leap :: "nat \<Rightarrow> bool" where
  "is_leap y = (y mod 4 = 0 \<and> (y mod 100 \<noteq> 0 \<or> y mod 400 = 0))"

definition days_in_month :: "nat \<Rightarrow> nat \<Rightarrow> nat" where
  "days_in_month y m =
     (if m = 2 then (if is_leap y then 29 else 28)
      else if m = 4 \<or> m = 6 \<or> m = 9 \<or> m = 11 then 30 else 31)"

text \<open>\<^verbatim>\<open>datetime.date(year, month, day)\<close> raises \<^verbatim>\<open>ValueError\<close> outside these bounds.\<close>

definition valid_date :: "nat \<Rightarrow> nat \<Rightarrow> nat \<Rightarrow> bool" where
  "valid_date y m d =
     (1 \<le> y \<and> y \<le> 9999 \<and> 1 \<le> m \<and> m \<le> 12 \<and> 1 \<le> d \<and> d \<le> days_in_month y m)"

definition strptime_Ymd :: "string \<Rightarrow> exn + (nat \<times> nat \<times> nat)" where
  "strptime_Ymd s =
     (case strptime_match s of
        None \<Rightarrow> Inl (ValueError ''time data does not match format'')
      | Some (y, m, d, rest) \<Rightarrow>
          if rest \<noteq> [] then Inl (ValueError ''unconverted data remains'')
          else
            let year = decimal_nat y; month = decimal_nat m; day = decimal_nat (py_strip d)
            in if valid_date year month day then Inr (year, month, day)
               else Inl (ValueError ''day is out of range for month''))"

definition validate_fecha :: "string \<Rightarrow> exn + string" where
  "validate_fecha v =
     (case strptime_Ymd v of
        Inl e \<Rightarrow> Inl (ValueError ''fechaInicioPlaneada debe tener el formato YYYY-MM-DD'')
      | Inr _ \<Rightarrow> Inr v)"

text \<open>
  Building the model from a body whose fields already have their types. The two
  \<^verbatim>\<open>EmailStr\<close> fields go through the e-mail validator of the library, a parameter here:
  \<open>None\<close> when it refuses the address, otherwise the address it returns. Errors of
  all fields are collected in field order.
\<close>

type_synonym email_validator = "string \<Rightarrow> string option"

definition email_errors :: "email_validator \<Rightarrow> string \<Rightarrow> string \<Rightarrow> validation_error list" where
  "email_errors ev field v = (case ev v of None \<Rightarrow> [EmailError field] | Some _ \<Rightarrow> [])"

definition priority_errors :: "int \<Rightarrow> validation_error list" where
  "priority_errors p =
     (if \<not> p \<ge> 1 then [GreaterEqualError ''priority'' 1]
      else if \<not> p \<le> 4 then [LessEqualError ''priority'' 4]
      else [])"

definition fecha_errors :: "string \<Rightarrow> validation_error list" where
  "fecha_errors v =
     (case validate_fecha v of
        Inl (ValueError m) \<Rightarrow> [ValidatorError ''fechaInicioPlaneada'' m]
      | Inl _ \<Rightarrow> []
      | Inr _ \<Rightarrow> [])"

definition BugCreateRequest_errors ::
  "email_validator \<Rightarrow> BugCreateRequest \<Rightarrow> validation_error list" where
  "BugCreateRequest_errors ev raw =
     email_errors ev ''assignedTo'' (assignedTo raw) @
     priority_errors (priority raw) @
     fecha_errors (fechaInicioPlaneada raw) @
     email_errors ev ''responsableBug'' (responsableBug raw)"

definition BugCreateRequest_validate ::
  "email_validator \<Rightarrow> BugCreateRequest \<Rightarrow> validation_error list + BugCreateRequest" where
  "BugCreateRequest_validate ev raw =
     (case (BugCreateRequest_errors ev raw, ev (assignedTo raw), ev (responsableBug raw)) of
        ([], Some a, Some r) \<Rightarrow> Inr (raw\<lparr>assignedTo := a, responsableBug := r\<rparr>)
      | (errs, _, _) \<Rightarrow> Inl errs)"

subsection \<open>\<^verbatim>\<open>POST /bugs\<close>\<close>

definition TESTER_NAME :: string where
  "TESTER_NAME = ''Antony Daniel Gutierrez Salgado''"

definition tester_not_found_message :: string where
  "tester_not_found_message =
     ''No se pudo encontrar el usuario Tester '' @ [CHR 0x27] @ TESTER_NAME @ [CHR 0x27] @
     '' en la organizaci'' @ [CHR 0xF3] @ ''n de Azure DevOps.''"

text \<open>One entry \<^verbatim>\<open>{"op": "add", "path": ..., "value": ...}\<close> of the patch document.\<close>

definition add_op :: "string \<Rightarrow> json \<Rightarrow> json" where
  "add_op path v = JObj [(''op'', JStr ''add''), (''path'', JStr path), (''value'', v)]"

definition parent_url :: "string \<Rightarrow> string \<Rightarrow> int \<Rightarrow> string" where
  "parent_url org proj story =
     ''https://dev.azure.com/'' @ org @ ''/'' @ proj @ ''/_apis/wit/workItems/'' @ str_int story"

definition patch_ops :: "string \<Rightarrow> json \<Rightarrow> string \<Rightarrow> BugCreateRequest \<Rightarrow> json list" where
  "patch_ops org tester_principal fecha_con_hora request_body =
     [add_op ''/fields/System.Title'' (JStr (title request_body)),
      add_op ''/fields/System.AssignedTo'' (JStr (assignedTo request_body)),
      add_op ''/fields/Microsoft.VSTS.TCM.ReproSteps'' (JStr (reproSteps request_body)),
      add_op ''/fields/Microsoft.VSTS.Scheduling.Effort'' (JFloat (effort request_body)),
      add_op ''/fields/Microsoft.VSTS.Common.Priority'' (JInt (priority request_body)),
      add_op ''/fields/Microsoft.VSTS.Common.Severity'' (JStr (severity request_body)),
      add_op ''/fields/Microsoft.VSTS.Common.Activity'' (JStr (activity request_body)),
      add_op ''/fields/Microsoft.VSTS.Common.ValueArea'' (JStr ''Business''),
      add_op ''/fields/Custom.Tester'' tester_principal,
      add_op ''/fields/Custom.Cliente'' (JStr (cliente request_body)),
      add_op ''/fields/Custom.Tipodeerror'' (JStr (tipoDeError request_body)),
      add_op ''/fields/Custom.FechaInicioPlaneada'' (JStr fecha_con_hora),
      add_op ''/fields/Custom.ResponsableBug'' (JStr (responsableBug request_body)),
      add_op ''/fields/Custom.33ece249-f3ca-4b23-a86a-0c605534caa3''
        (JStr (aplicacion request_body)),
      add_op ''/fields/Custom.Tareaasociada'' (JStr (str_int (tareaAsociada request_body))),
      add_op ''/fields/Custom.f82dc49a-eb67-44c3-ac65-de18fee91f0b''
        (JStr (versionAplicacion request_body)),
      add_op ''/fields/Custom.Funcionalidadquepresentaelerror''
        (JStr (funcionalidad request_body)),
      add_op ''/relations/-''
        (JObj [(''rel'', JStr ''System.LinkTypes.Hierarchy-Reverse''),
               (''url'', JStr (parent_url org (project request_body)
                                 (userStoryId request_body))),
               (''attributes'', JObj [(''comment'', JStr ''Parent User Story'')])])]"

definition create_request ::
  "string \<Rightarrow> string \<Rightarrow> json \<Rightarrow> BugCreateRequest \<Rightarrow> http_request" where
  "create_request org pat tester_principal request_body =
     (let fecha_con_hora = fechaInicioPlaneada request_body @ ''T00:00:00-05:00'' in
      \<lparr>meth = ''POST'',
       url = ''https://dev.azure.com/'' @ org @ ''/'' @ project request_body @
             ''/_apis/wit/workitems/$Bug?api-version=7.1-preview'',
       headers = [(''Authorization'', build_auth_header pat),
                  (''Content-Type'', ''application/json-patch+json''),
                  (''Accept'', ''application/json'')],
       body = Some (JArr (patch_ops org tester_principal fecha_con_hora request_body))\<rparr>)"

text \<open>\<^verbatim>\<open>if not tester_principal\<close> holds for \<^verbatim>\<open>None\<close> and for any falsy value.\<close>

definition create_bug ::
  "environ \<Rightarrow> upstream \<Rightarrow> BugCreateRequest \<Rightarrow> (exn + reply) \<times> http_request list" where
  "create_bug env up request_body =
     (case get_azure_config env of
        Inl e \<Rightarrow> (Inl e, [])
      | Inr (org, pat) \<Rightarrow>
          (case find_user_principal_name up org pat TESTER_NAME of
             (Inl e, calls) \<Rightarrow> (Inl e, calls)
           | (Inr found, calls) \<Rightarrow>
               (case (case found of None \<Rightarrow> None
                      | Some t \<Rightarrow> if truthy t then Some t else None) of
                  None \<Rightarrow> (Inl (HTTPException 404 (JStr tester_not_found_message)), calls)
                | Some tester_principal \<Rightarrow>
                    let req = create_request org pat tester_principal request_body in
                    (case up req of
                       Inl m \<Rightarrow> (Inl (HTTPError m), calls @ [req])
                     | Inr resp \<Rightarrow>
                         if status_code resp \<ge> 400 then
                           (Inl (HTTPException 502
                              (JObj [(''message'', JStr ''Azure DevOps API error creating bug''),
                                     (''azure_status'', JInt (status_code resp)),
                                     (''azure_response'', json_or_raw_text resp)])),
                            calls @ [req])
                         else (Inr (JSONResponse 201 (json_or_raw_text resp)), calls @ [req])))))"

subsection \<open>The application\<close>

datatype inbound = GET_projects | POST_bugs BugCreateRequest

definition respond :: "(exn + reply) \<times> http_request list \<Rightarrow> reply \<times> http_request list" where
  "respond r = (case r of (Inl e, calls) \<Rightarrow> (handle_exception e, calls)
                        | (Inr rep, calls) \<Rightarrow> (rep, calls))"

text \<open>
  The body of \<^verbatim>\<open>POST /bugs\<close> is validated before \<^verbatim>\<open>create_bug\<close> is called; a body
  that fails is answered with 422 and the handler is not entered.
\<close>

fun app :: "email_validator \<Rightarrow> environ \<Rightarrow> upstream \<Rightarrow> inbound \<Rightarrow> reply \<times> http_request list" where
  "app ev env up GET_projects = respond (list_projects env up)"
| "app ev env up (POST_bugs raw) =
     (case BugCreateRequest_validate ev raw of
        Inl errs \<Rightarrow> (ValidationErrorResponse errs, [])
      | Inr request_body \<Rightarrow> respond (create_bug env up request_body))"

subsection \<open>Reading a patch document\<close>

text \<open>What an entry of a patch document says, and the values a document gives a path.\<close>

definition op_field :: "string \<Rightarrow> json \<Rightarrow> json option" where
  "op_field k entry = (case entry of JObj kvs \<Rightarrow> map_of kvs k | _ \<Rightarrow> None)"

definition values_at :: "string \<Rightarrow> json list \<Rightarrow> json option list" where
  "values_at path ops =
     map (op_field ''value'') (filter (\<lambda>entry. op_field ''path'' entry = Some (JStr path)) ops)"

text \<open>
  The fifteen fields of the request that \<^verbatim>\<open>patch_ops\<close> copies into an entry of their
  own, with the path each goes to and the value sent. (\<^verbatim>\<open>project\<close> and
  \<^verbatim>\<open>userStoryId\<close> go into the URLs instead.)
\<close>

definition mapped_input_fields :: "(string \<times> (BugCreateRequest \<Rightarrow> json)) list" where
  "mapped_input_fields =
     [(''/fields/System.Title'', \<lambda>r. JStr (title r)),
      (''/fields/System.AssignedTo'', \<lambda>r. JStr (assignedTo r)),
      (''/fields/Microsoft.VSTS.TCM.ReproSteps'', \<lambda>r. JStr (reproSteps r)),
      (''/fields/Microsoft.VSTS.Scheduling.Effort'', \<lambda>r. JFloat (effort r)),
      (''/fields/Microsoft.VSTS.Common.Priority'', \<lambda>r. JInt (priority r)),
      (''/fields/Microsoft.VSTS.Common.Severity'', \<lambda>r. JStr (severity r)),
      (''/fields/Microsoft.VSTS.Common.Activity'', \<lambda>r. JStr (activity r)),
      (''/fields/Custom.Cliente'', \<lambda>r. JStr (cliente r)),
      (''/fields/Custom.Tipodeerror'', \<lambda>r. JStr (tipoDeError r)),
      (''/fields/Custom.FechaInicioPlaneada'',
         \<lambda>r. JStr (fechaInicioPlaneada r @ ''T00:00:00-05:00'')),
      (''/fields/Custom.ResponsableBug'', \<lambda>r. JStr (responsableBug r)),
      (''/fields/Custom.33ece249-f3ca-4b23-a86a-0c605534caa3'', \<lambda>r. JStr (aplicacion r)),
      (''/fields/Custom.Tareaasociada'', \<lambda>r. JStr (str_int (tareaAsociada r))),
      (''/fields/Custom.f82dc49a-eb67-44c3-ac65-de18fee91f0b'',
         \<lambda>r. JStr (versionAplicacion r)),
      (''/fields/Custom.Funcionalidadquepresentaelerror'', \<lambda>r. JStr (funcionalidad r))]"

definition parent_link :: "string \<Rightarrow> BugCreateRequest \<Rightarrow> json" where
  "parent_link org r =
     JObj [(''rel'', JStr ''System.LinkTypes.Hierarchy-Reverse''),
           (''url'', JStr (''https://dev.azure.com/'' @ org @ ''/'' @ project r @
                           ''/_apis/wit/workItems/'' @ str_int (userStoryId r))),
           (''attributes'', JObj [(''comment'', JStr ''Parent User Story'')])]"

subsection \<open>The tester lookup as the specification words it\<close>

text \<open>
  The value an entry holds under \<open>k\<close> in its \<^verbatim>\<open>user\<close> object, when there is one: a
  missing key, \<^verbatim>\<open>null\<close> and an empty value all count as absent.
\<close>

definition entry_field :: "string \<Rightarrow> json \<Rightarrow> json option" where
  "entry_field k u =
     (case u of
        JObj kvs \<Rightarrow>
          (case map_of kvs ''user'' of
             Some (JObj info) \<Rightarrow>
               (case map_of info k of
                  Some v \<Rightarrow> if truthy v then Some v else None
                | None \<Rightarrow> None)
           | _ \<Rightarrow> None)
      | _ \<Rightarrow> None)"

text \<open>
  The identifier of an entry: its \<^verbatim>\<open>principalName\<close>, or its \<^verbatim>\<open>mailAddress\<close> when the
  \<^verbatim>\<open>principalName\<close> is absent; none when both are absent.
\<close>

definition identifier_of :: "json \<Rightarrow> json option" where
  "identifier_of u =
     (case entry_field ''principalName'' u of
        Some p \<Rightarrow> Some p
      | None \<Rightarrow> entry_field ''mailAddress'' u)"

text \<open>
  An entry matches when its name and the searched name are equal after stripping
  surrounding whitespace and lowercasing both.
\<close>

definition name_matches :: "string \<Rightarrow> json \<Rightarrow> bool" where
  "name_matches display_name u =
     (case user_name u of
        Inr (JStr n) \<Rightarrow> py_lower (py_strip n) = py_lower (py_strip display_name)
      | _ \<Rightarrow> False)"

text \<open>
  What the lookup is to return: the identifier of the first matching entry that has
  one. Matching entries without an identifier are passed over.
\<close>

definition first_identifier :: "string \<Rightarrow> json list \<Rightarrow> json option" where
  "first_identifier display_name users =
     (case List.map_filter identifier_of (filter (name_matches display_name) users) of
        [] \<Rightarrow> None
      | i # _ \<Rightarrow> Some i)"

subsection \<open>The date format as the specification words it\<close>

text \<open>
  Four digits, a hyphen, two digits, a hyphen, two digits: the format \<^verbatim>\<open>YYYY-MM-DD\<close>
  that the specification and the validator's own error message name.
\<close>

definition matches_YYYY_MM_DD :: "string \<Rightarrow> bool" where
  "matches_YYYY_MM_DD s =
     (case s of
        [y1, y2, y3, y4, h1, m1, m2, h2, d1, d2] \<Rightarrow>
          list_all is_digit [y1, y2, y3, y4, m1, m2, d1, d2] \<and> h1 = CHR ''-'' \<and> h2 = CHR ''-''
      | _ \<Rightarrow> False)"

subsection \<open>Concrete inputs\<close>

definition ex_bug :: BugCreateRequest where
  "ex_bug =
     \<lparr>project = ''Tienda'', userStoryId = 42, title = ''Login falla'',
      assignedTo = ''dev@x.com'', reproSteps = ''Abrir; entrar'', effort = 3 / 2,
      cliente = ''ACME'', priority = 2, severity = ''2 - High'', activity = ''Testing'',
      tipoDeError = ''Funcional'', fechaInicioPlaneada = ''2024-03-15'',
      responsableBug = ''qa@x.com'', aplicacion = ''Web'', tareaAsociada = 1205,
      versionAplicacion = ''1.0.3'', funcionalidad = ''Login''\<rparr>"

definition ex_env :: environ where
  "ex_env = [''AZURE_DEVOPS_ORG'' \<mapsto> ''contoso'', ''AZURE_DEVOPS_PAT'' \<mapsto> ''s3cret'']"

text \<open>A stand-in for the e-mail validator: it wants an \<^verbatim>\<open>@\<close> and changes nothing.\<close>

definition ex_email :: email_validator where
  "ex_email s = (if CHR ''@'' \<in> set s then Some s else None)"

definition ex_tester_entry :: json where
  "ex_tester_entry =
     JObj [(''user'', JObj [(''displayName'', JStr ''  ANTONY Daniel Gutierrez Salgado ''),
                            (''principalName'', JStr ''t@x.com'')])]"

definition ex_other_entry :: json where
  "ex_other_entry =
     JObj [(''user'', JObj [(''displayName'', JStr ''Otra Persona''),
                            (''principalName'', JStr ''o@x.com'')])]"

definition ex_nameless_match :: json where
  "ex_nameless_match = JObj [(''user'', JObj [(''displayName'', JStr TESTER_NAME)])]"

definition ex_mail_only_match :: json where
  "ex_mail_only_match =
     JObj [(''name'', JStr ''antony daniel gutierrez salgado''),
           (''user'', JObj [(''mailAddress'', JStr ''m@x.com'')])]"

definition json_response :: "int \<Rightarrow> json \<Rightarrow> http_response" where
  "json_response s j = \<lparr>status_code = s, resp_text = ''(json)'', resp_json = Inr j\<rparr>"

definition text_response :: "int \<Rightarrow> string \<Rightarrow> http_response" where
  "text_response s t = \<lparr>status_code = s, resp_text = t, resp_json = Inl JSONDecodeError\<rparr>"

definition ex_projects :: json where
  "ex_projects = JObj [(''count'', JInt 1), (''value'', JArr [JObj [(''name'', JStr ''Tienda'')]])]"

definition ex_created :: json where
  "ex_created = JObj [(''id'', JInt 123)]"

text \<open>
  An upstream that answers the projects fetch with \<open>pr\<close>, the tester lookup with \<open>lr\<close>
  and the creation call with \<open>cr\<close>.
\<close>

definition ex_upstream :: "http_response \<Rightarrow> http_response \<Rightarrow> http_response \<Rightarrow> upstream" where
  "ex_upstream pr lr cr req =
     Inr (if meth req = ''POST'' then cr
          else if take 13 (url req) = ''https://vsaex'' then lr
          else pr)"

definition ex_up_ok :: upstream where
  "ex_up_ok =
     ex_upstream (json_response 200 ex_projects)
       (json_response 200 (JObj [(''members'', JArr [ex_other_entry, ex_tester_entry])]))
       (json_response 200 ex_created)"

definition ex_env_no_pat :: environ where
  "ex_env_no_pat = [''AZURE_DEVOPS_ORG'' \<mapsto> ''contoso'']"

definition ex_bug_priority_5 :: BugCreateRequest where
  "ex_bug_priority_5 = ex_bug\<lparr>priority := 5\<rparr>"

text \<open>An upstream whose lookup answer holds one entry: the tester's name, no identifier.\<close>

definition ex_up_nameless :: upstream where
  "ex_up_nameless =
     ex_upstream (json_response 200 ex_projects)
       (json_response 200 (JObj [(''members'', JArr [ex_nameless_match])]))
       (json_response 200 ex_created)"

text \<open>An upstream that fails the tester lookup with a 500.\<close>

definition ex_up_lookup_500 :: upstream where
  "ex_up_lookup_500 =
     ex_upstream (json_response 200 ex_projects)
       (text_response 500 ''Internal Server Error'')
       (json_response 200 ex_created)"

text \<open>An upstream that answers the projects fetch with a redirect.\<close>

definition ex_up_projects_302 :: upstream where
  "ex_up_projects_302 =
     ex_upstream (json_response 302 ex_projects)
       (text_response 302 [])
       (text_response 302 [])"

text \<open>An upstream that fails the creation call with a 400.\<close>

definition ex_up_create_400 :: upstream where
  "ex_up_create_400 =
     ex_upstream (json_response 200 ex_projects)
       (json_response 200 (JObj [(''members'', JArr [ex_other_entry, ex_tester_entry])]))
       (text_response 400 ''Bad Request'')"

definition ex_bug_short_date :: BugCreateRequest where
  "ex_bug_short_date = ex_bug\<lparr>fechaInicioPlaneada := ''2024-1-5''\<rparr>"



text \<open>An upstream whose lookup answer lists a person with only a mail address first.\<close>

definition ex_up_mail_first :: upstream where
  "ex_up_mail_first =
     ex_upstream (json_response 200 ex_projects)
       (json_response 200
          (JObj [(''value'',
                  JArr [ex_other_entry, ex_nameless_match, ex_mail_only_match,
                        ex_tester_entry])]))
       (json_response 200 ex_created)"

section \<open>Properties\<close>

subsection \<open>Validation and configuration: auxiliary facts\<close>

lemma validate_Inr_iff:
  "BugCreateRequest_validate ev raw = Inr rb \<longleftrightarrow>
     (\<exists>a r. BugCreateRequest_errors ev raw = [] \<and> ev (assignedTo raw) = Some a \<and>
            ev (responsableBug raw) = Some r \<and> rb = raw\<lparr>assignedTo := a, responsableBug := r\<rparr>)"
  by (auto simp: BugCreateRequest_validate_def split: list.splits option.splits)

lemma validate_Inl_errors:
  "BugCreateRequest_errors ev raw \<noteq> [] \<Longrightarrow>
     BugCreateRequest_validate ev raw = Inl (BugCreateRequest_errors ev raw)"
  by (auto simp: BugCreateRequest_validate_def split: list.splits option.splits)

lemma app_rejects:
  "BugCreateRequest_errors ev raw \<noteq> [] \<Longrightarrow>
     app ev env up (POST_bugs raw) =
       (ValidationErrorResponse (BugCreateRequest_errors ev raw), [])"
  by (simp add: validate_Inl_errors)

lemma ex_bug_valid: "BugCreateRequest_validate ex_email ex_bug = Inr ex_bug"
  by code_simp

lemma ex_env_config: "get_azure_config ex_env = Inr (''contoso'', ''s3cret'')"
  by code_simp

lemma config_absent:
  "env ''AZURE_DEVOPS_ORG'' = None \<or> env ''AZURE_DEVOPS_PAT'' = None \<Longrightarrow>
     get_azure_config env = Inl (RuntimeError config_error_message)"
  by (auto simp: get_azure_config_def split: option.splits)

subsection \<open>The priority bound\<close>

text \<open>
  Claim C4. A request that validation accepts has a priority between 1 and 4; a
  \<^verbatim>\<open>POST /bugs\<close> whose priority lies outside that range is answered with the 422
  validation reply, which lists the violated bound, and no outbound call is made: the
  reply comes from the validation step, before \<^verbatim>\<open>create_bug\<close> is entered.
\<close>

theorem priority_bounded:
  "(BugCreateRequest_validate ev raw = Inr rb \<longrightarrow> 1 \<le> priority rb \<and> priority rb \<le> 4) \<and>
   (\<not> (1 \<le> priority raw \<and> priority raw \<le> 4) \<longrightarrow>
      (\<exists>errs. app ev env up (POST_bugs raw) = (ValidationErrorResponse errs, []) \<and>
              reply_status (fst (app ev env up (POST_bugs raw))) = 422 \<and>
              (GreaterEqualError ''priority'' 1 \<in> set errs \<or>
               LessEqualError ''priority'' 4 \<in> set errs)))"
proof (intro conjI impI)
  assume "BugCreateRequest_validate ev raw = Inr rb"
  then have "priority_errors (priority raw) = []" and "priority rb = priority raw"
    by (auto simp: validate_Inr_iff BugCreateRequest_errors_def)
  then show "1 \<le> priority rb" and "priority rb \<le> 4"
    by (auto simp: priority_errors_def split: if_splits)
next
  assume out: "\<not> (1 \<le> priority raw \<and> priority raw \<le> 4)"
  let ?errs = "BugCreateRequest_errors ev raw"
  from out have mem: "GreaterEqualError ''priority'' 1 \<in> set ?errs \<or>
      LessEqualError ''priority'' 4 \<in> set ?errs"
    by (auto simp: BugCreateRequest_errors_def priority_errors_def)
  then have "?errs \<noteq> []" by auto
  then have "app ev env up (POST_bugs raw) = (ValidationErrorResponse ?errs, [])"
    by (rule app_rejects)
  with mem show "\<exists>errs. app ev env up (POST_bugs raw) = (ValidationErrorResponse errs, []) \<and>
              reply_status (fst (app ev env up (POST_bugs raw))) = 422 \<and>
              (GreaterEqualError ''priority'' 1 \<in> set errs \<or>
               LessEqualError ''priority'' 4 \<in> set errs)"
    by auto
qed

text \<open>The example request is accepted with priority 2; with priority 5 it is refused.\<close>

theorem priority_bounded_witness:
  "BugCreateRequest_validate ex_email ex_bug = Inr ex_bug \<and>
   1 \<le> priority ex_bug \<and> priority ex_bug \<le> 4 \<and>
   \<not> (1 \<le> priority ex_bug_priority_5 \<and> priority ex_bug_priority_5 \<le> 4) \<and>
   (\<exists>errs. app ex_email ex_env ex_up_ok (POST_bugs ex_bug_priority_5) =
             (ValidationErrorResponse errs, []))"
proof -
  have out: "\<not> (1 \<le> priority ex_bug_priority_5 \<and> priority ex_bug_priority_5 \<le> 4)"
    by (simp add: ex_bug_priority_5_def)
  have "1 \<le> priority ex_bug \<and> priority ex_bug \<le> 4"
    using priority_bounded [of ex_email ex_bug ex_bug] ex_bug_valid by blast
  moreover have "\<exists>errs. app ex_email ex_env ex_up_ok (POST_bugs ex_bug_priority_5) =
             (ValidationErrorResponse errs, [])"
    using priority_bounded [of ex_email ex_bug_priority_5 _ ex_env ex_up_ok] out by blast
  ultimately show ?thesis using ex_bug_valid out by blast
qed

subsection \<open>Listing projects\<close>




subsection \<open>Missing configuration\<close>

text \<open>
  Claim C7, as stated, fails: with the access credential absent, a \<^verbatim>\<open>POST /bugs\<close>
  whose body has priority 5 is answered 422 by the validation step, not 500.
\<close>

theorem missing_config_invalid_body_422:
  "ex_env_no_pat ''AZURE_DEVOPS_PAT'' = None \<and>
   reply_status (fst (app ex_email ex_env_no_pat ex_up_ok (POST_bugs ex_bug_priority_5))) = 422"
  by code_simp

text \<open>
  Claim C7, amended. If either configuration variable is absent from the environment,
  every \<^verbatim>\<open>GET /projects\<close> request and every \<^verbatim>\<open>POST /bugs\<close> request whose body passes
  validation is answered with a 500 response that carries the configuration error
  message, and no outbound call is made; a \<^verbatim>\<open>POST /bugs\<close> request whose body fails
  validation is answered with the 422 validation reply instead, also without any
  outbound call.
\<close>

theorem missing_config:
  assumes "env ''AZURE_DEVOPS_ORG'' = None \<or> env ''AZURE_DEVOPS_PAT'' = None"
  shows "app ev env up GET_projects =
           (JSONResponse 500 (JObj [(''detail'', JStr config_error_message)]), []) \<and>
         (BugCreateRequest_validate ev raw = Inr rb \<longrightarrow>
            app ev env up (POST_bugs raw) =
              (JSONResponse 500 (JObj [(''detail'', JStr config_error_message)]), [])) \<and>
         (BugCreateRequest_validate ev raw = Inl errs \<longrightarrow>
            app ev env up (POST_bugs raw) = (ValidationErrorResponse errs, []))"
  using config_absent [OF assms]
  by (simp add: list_projects_def create_bug_def respond_def runtime_error_handler_def)

theorem missing_config_witness:
  "ex_env_no_pat ''AZURE_DEVOPS_PAT'' = None \<and>
   app ex_email ex_env_no_pat ex_up_ok GET_projects =
     (JSONResponse 500 (JObj [(''detail'', JStr config_error_message)]), []) \<and>
   app ex_email ex_env_no_pat ex_up_ok (POST_bugs ex_bug) =
     (JSONResponse 500 (JObj [(''detail'', JStr config_error_message)]), [])"
proof -
  have absent: "ex_env_no_pat ''AZURE_DEVOPS_ORG'' = None \<or> ex_env_no_pat ''AZURE_DEVOPS_PAT'' = None"
    by (simp add: ex_env_no_pat_def)
  have pat: "ex_env_no_pat ''AZURE_DEVOPS_PAT'' = None"
    by (simp add: ex_env_no_pat_def)
  show ?thesis
    using missing_config [OF absent, of ex_email ex_up_ok ex_bug ex_bug] ex_bug_valid pat
    by simp
qed

subsection \<open>The tester lookup and \<^verbatim>\<open>create_bug\<close>: auxiliary facts\<close>

lemma find_user_loop_truthy:
  "find_user_loop d us = Inr (Some t) \<Longrightarrow> truthy t"
proof (induction us)
  case Nil
  then show ?case by simp
next
  case (Cons u us)
  then show ?case
    by (auto split: sum.splits json.splits if_splits)
qed

lemma find_user_in_truthy:
  "find_user_in d users = Inr (Some t) \<Longrightarrow> truthy t"
  by (cases users) (auto dest: find_user_loop_truthy split: if_splits)

lemma find_user_principal_name_truthy:
  "find_user_principal_name up org pat d = (Inr (Some t), calls) \<Longrightarrow> truthy t"
  by (auto simp: find_user_principal_name_def Let_def dest: find_user_in_truthy
           split: sum.splits if_splits option.splits)


lemma create_bug_found:
  assumes "get_azure_config env = Inr (org, pat)"
    and "find_user_principal_name up org pat TESTER_NAME = (Inr (Some t), calls)"
  shows "create_bug env up rb =
     (let req = create_request org pat t rb in
      case up req of
        Inl m \<Rightarrow> (Inl (HTTPError m), calls @ [req])
      | Inr resp \<Rightarrow>
          if status_code resp \<ge> 400 then
            (Inl (HTTPException 502
               (JObj [(''message'', JStr ''Azure DevOps API error creating bug''),
                      (''azure_status'', JInt (status_code resp)),
                      (''azure_response'', json_or_raw_text resp)])), calls @ [req])
          else (Inr (JSONResponse 201 (json_or_raw_text resp)), calls @ [req]))"
  using assms find_user_principal_name_truthy [OF assms(2)]
  by (simp add: create_bug_def)

lemma create_bug_not_found:
  assumes "get_azure_config env = Inr (org, pat)"
    and "find_user_principal_name up org pat TESTER_NAME = (Inr None, calls)"
  shows "create_bug env up rb =
     (Inl (HTTPException 404 (JStr tester_not_found_message)), calls)"
  using assms by (simp add: create_bug_def)




lemma ex_lookup_ok:
  "find_user_principal_name ex_up_ok ''contoso'' ''s3cret'' TESTER_NAME =
     (Inr (Some (JStr ''t@x.com'')), [lookup_request ''contoso'' ''s3cret'' TESTER_NAME])"
  by code_simp


lemma py_strip_padding:
  assumes "list_all py_isspace a" and "list_all py_isspace b"
  shows "py_strip (a @ n @ b) = py_strip n"
proof -
  have front: "dropWhile py_isspace (a @ n @ b) = dropWhile py_isspace (n @ b)"
    using assms(1) by (simp add: list_all_iff)
  show ?thesis
  proof (cases "dropWhile py_isspace n = []")
    case True
    then have alln: "\<forall>x \<in> set n. py_isspace x"
      by simp
    then have "dropWhile py_isspace (n @ b) = dropWhile py_isspace b"
      by simp
    also have "\<dots> = []"
      using assms(2) by (simp add: list_all_iff)
    finally have "dropWhile py_isspace (n @ b) = []" .
    with front have e: "dropWhile py_isspace (a @ n @ b) = []"
      by (rule trans)
    have "py_strip (a @ n @ b) = rev (dropWhile py_isspace (rev []))"
      unfolding py_strip_def e ..
    moreover have "py_strip n = rev (dropWhile py_isspace (rev []))"
      unfolding py_strip_def True ..
    ultimately show ?thesis by (simp only:)
  next
    case False
    then obtain x where x: "x \<in> set n" "\<not> py_isspace x"
      by auto
    then have "dropWhile py_isspace (n @ b) = dropWhile py_isspace n @ b"
      by simp
    moreover have "dropWhile py_isspace (rev b @ rev (dropWhile py_isspace n)) =
        dropWhile py_isspace (rev (dropWhile py_isspace n))"
      using assms(2) by (intro dropWhile_append2) (simp add: list_all_iff)
    ultimately show ?thesis using front by (simp add: py_strip_def)
  qed
qed

lemma of_char_lower_char:
  "(of_char (lower_char c) :: nat) =
     (if (65 \<le> (of_char c :: nat) \<and> (of_char c :: nat) \<le> 90) \<or>
         (192 \<le> (of_char c :: nat) \<and> (of_char c :: nat) \<le> 222 \<and> (of_char c :: nat) \<noteq> 215)
      then of_char c + 32 else of_char c)"
  by (auto simp: lower_char_def Let_def)

lemma lower_char_idem: "lower_char (lower_char c) = lower_char c"
proof -
  have "(of_char (lower_char (lower_char c)) :: nat) = of_char (lower_char c)"
    by (simp add: of_char_lower_char)
  then show ?thesis by (metis char_of_char)
qed

lemma py_isspace_lower_char: "py_isspace (lower_char c) = py_isspace c"
  by (auto simp: py_isspace_def Let_def of_char_lower_char)

lemma py_strip_lower: "py_strip (py_lower s) = py_lower (py_strip s)"
proof -
  have comp: "py_isspace \<circ> lower_char = py_isspace"
    by (auto simp: py_isspace_lower_char)
  have d: "dropWhile py_isspace (map lower_char xs) = map lower_char (dropWhile py_isspace xs)"
    for xs
    by (simp add: dropWhile_map comp)
  show ?thesis
    by (simp add: py_strip_def py_lower_def d rev_map)
qed

lemma py_lower_idem: "py_lower (py_lower s) = py_lower s"
  by (simp add: py_lower_def lower_char_idem)

lemma names_equal_lower: "names_equal (py_lower n) d = names_equal n d"
  by (simp add: names_equal_def py_strip_lower py_lower_idem)

lemma names_equal_padding:
  "list_all py_isspace a \<Longrightarrow> list_all py_isspace b \<Longrightarrow>
     names_equal (a @ n @ b) d = names_equal n d"
  by (simp add: names_equal_def py_strip_padding)

lemma ex_names:
  "user_name ex_other_entry = Inr (JStr ''Otra Persona'')"
  "user_name ex_tester_entry = Inr (JStr ''  ANTONY Daniel Gutierrez Salgado '')"
  "user_name ex_mail_only_match = Inr (JStr ''antony daniel gutierrez salgado'')"
  by (simp_all add: ex_other_entry_def ex_tester_entry_def ex_mail_only_match_def
      user_name_def user_attr_def dict_get_def)

lemma lookup_failed:
  assumes "up (lookup_request org pat d) = Inr resp" and "status_code resp \<ge> 400"
  shows "find_user_principal_name up org pat d = (Inr None, [lookup_request org pat d])"
  using assms by (simp add: find_user_principal_name_def Let_def)


lemma user_attr_entry_field_case:
  "user_name u = Inr x \<Longrightarrow>
     (case user_attr u k of
        Inr v \<Rightarrow> entry_field k u = (if truthy v then Some v else None)
      | Inl e \<Rightarrow> False)"
  by (cases u)
     (auto simp: user_name_def user_attr_def dict_get_def entry_field_def
           split: option.splits json.splits sum.splits if_splits)

lemma user_attr_entry_field:
  "user_name u = Inr x \<Longrightarrow>
     \<exists>v. user_attr u k = Inr v \<and> entry_field k u = (if truthy v then Some v else None)"
  using user_attr_entry_field_case [of u x k] by (cases "user_attr u k") auto

lemma find_user_loop_step:
  assumes "user_name u = Inr (JStr n)"
  shows "find_user_loop d (u # us) =
     (if name_matches d u then
        (case identifier_of u of Some i \<Rightarrow> Inr (Some i) | None \<Rightarrow> find_user_loop d us)
      else find_user_loop d us)"
proof -
  obtain p where p: "user_attr u ''principalName'' = Inr p"
      "entry_field ''principalName'' u = (if truthy p then Some p else None)"
    using user_attr_entry_field [OF assms] by blast
  obtain m where m: "user_attr u ''mailAddress'' = Inr m"
      "entry_field ''mailAddress'' u = (if truthy m then Some m else None)"
    using user_attr_entry_field [OF assms] by blast
  show ?thesis
    using assms p m by (simp add: name_matches_def names_equal_def identifier_of_def)
qed

lemma find_user_loop_first_identifier:
  "\<forall>u \<in> set users. \<exists>n. user_name u = Inr (JStr n) \<Longrightarrow>
     find_user_loop d users = Inr (first_identifier d users)"
proof (induction users)
  case Nil
  then show ?case by (simp add: first_identifier_def)
next
  case (Cons u us)
  then obtain n where n: "user_name u = Inr (JStr n)" by auto
  from Cons have ih: "find_user_loop d us = Inr (first_identifier d us)" by simp
  show ?case
    unfolding find_user_loop_step [OF n] ih
    by (simp add: first_identifier_def split: option.splits)
qed

lemma first_identifier_none:
  "\<forall>u \<in> set users. name_matches d u \<longrightarrow> identifier_of u = None \<Longrightarrow>
     first_identifier d users = None"
proof -
  assume a: "\<forall>u \<in> set users. name_matches d u \<longrightarrow> identifier_of u = None"
  have "List.map_filter identifier_of (filter (name_matches d) users) = []"
    using a by (induction users) (auto simp: List.map_filter_simps)
  then show ?thesis by (simp add: first_identifier_def)
qed

lemma first_identifier_found:
  assumes "users = pre @ u # post"
    and "\<forall>v \<in> set pre. name_matches d v \<longrightarrow> identifier_of v = None"
    and "name_matches d u" and "identifier_of u = Some i"
  shows "first_identifier d users = Some i"
proof -
  have "List.map_filter identifier_of (filter (name_matches d) pre) = []"
    using assms(2) by (induction pre) (auto simp: List.map_filter_simps)
  then have "List.map_filter identifier_of (filter (name_matches d) users) =
      i # List.map_filter identifier_of (filter (name_matches d) post)"
    using assms(1,3,4) by (simp add: List.map_filter_def)
  then show ?thesis by (simp add: first_identifier_def)
qed

lemma name_matches_named: "name_matches d u \<Longrightarrow> \<exists>n. user_name u = Inr (JStr n)"
  by (auto simp: name_matches_def split: sum.splits json.splits)

lemma find_user_loop_found:
  assumes "\<forall>v \<in> set pre. (\<exists>n. user_name v = Inr (JStr n)) \<and>
             (name_matches d v \<longrightarrow> identifier_of v = None)"
    and "name_matches d u" and "identifier_of u = Some i"
  shows "find_user_loop d (pre @ u # post) = Inr (Some i)"
  using assms(1)
proof (induction pre)
  case Nil
  obtain n where "user_name u = Inr (JStr n)"
    using name_matches_named [OF assms(2)] by blast
  then have "find_user_loop d (u # post) =
     (if name_matches d u then
        (case identifier_of u of Some i \<Rightarrow> Inr (Some i) | None \<Rightarrow> find_user_loop d post)
      else find_user_loop d post)"
    by (rule find_user_loop_step)
  then show ?case
    by (simp only: assms(2,3) append_Nil if_True option.case)
next
  case (Cons v pre)
  then obtain n where n: "user_name v = Inr (JStr n)" by auto
  from Cons have ih: "find_user_loop d (pre @ u # post) = Inr (Some i)" by simp
  from Cons.prems have none: "name_matches d v \<longrightarrow> identifier_of v = None" by simp
  have step: "find_user_loop d (v # (pre @ u # post)) =
     (if name_matches d v then
        (case identifier_of v of Some i \<Rightarrow> Inr (Some i)
         | None \<Rightarrow> find_user_loop d (pre @ u # post))
      else find_user_loop d (pre @ u # post))"
    using n by (rule find_user_loop_step)
  show ?case
  proof (cases "name_matches d v")
    case True
    with none have "identifier_of v = None" by simp
    with True step ih show ?thesis
      by (simp only: append_Cons if_True option.case)
  next
    case False
    with step ih show ?thesis
      by (simp only: append_Cons if_False)
  qed
qed

lemma ex_nameless_name: "user_name ex_nameless_match = Inr (JStr TESTER_NAME)"
  by (simp add: ex_nameless_match_def user_name_def user_attr_def dict_get_def)

lemma ex_first_identifier:
  "first_identifier TESTER_NAME
     [ex_other_entry, ex_nameless_match, ex_mail_only_match, ex_tester_entry] =
   Some (JStr ''m@x.com'')"
  by code_simp

subsection \<open>Successful creation\<close>

text \<open>
  Claim C8. For a \<^verbatim>\<open>POST /bugs\<close> whose body passes validation, with the configuration
  present: if the tester lookup returns an identifier and the upstream answers the
  creation call with a status below 400, the endpoint answers 201 with the upstream body
  as JSON, and with \<^verbatim>\<open>{"raw_text": <body text>}\<close> when that body does not parse as
  JSON. The outbound calls are the lookup followed by the creation call.
\<close>

theorem create_bug_success:
  assumes "BugCreateRequest_validate ev raw = Inr rb"
    and "get_azure_config env = Inr (org, pat)"
    and "find_user_principal_name up org pat TESTER_NAME = (Inr (Some t), calls)"
    and "up (create_request org pat t rb) = Inr resp"
    and "status_code resp < 400"
  shows "app ev env up (POST_bugs raw) =
           (JSONResponse 201
              (case resp_json resp of
                 Inr j \<Rightarrow> j
               | Inl e \<Rightarrow> JObj [(''raw_text'', JStr (resp_text resp))]),
            calls @ [create_request org pat t rb])"
  using assms(1,4,5) create_bug_found [OF assms(2,3), of rb]
  by (simp add: respond_def json_or_raw_text_def)

text \<open>
  A lookup that finds \<^verbatim>\<open>t@x.com\<close> and a creation answered with \<^verbatim>\<open>{"id": 123}\<close>;
  then a creation answered with text that is not JSON.
\<close>

theorem create_bug_success_witness:
  "app ex_email ex_env ex_up_ok (POST_bugs ex_bug) =
     (JSONResponse 201 ex_created,
      [lookup_request ''contoso'' ''s3cret'' TESTER_NAME,
       create_request ''contoso'' ''s3cret'' (JStr ''t@x.com'') ex_bug]) \<and>
   fst (app ex_email ex_env
          (ex_upstream (text_response 200 []) 
             (json_response 200 (JObj [(''value'', JArr [ex_mail_only_match])]))
             (text_response 200 ''created''))
          (POST_bugs ex_bug)) =
     JSONResponse 201 (JObj [(''raw_text'', JStr ''created'')])"
proof -
  have c1: "ex_up_ok (create_request ''contoso'' ''s3cret'' (JStr ''t@x.com'') ex_bug) =
      Inr (json_response 200 ex_created)"
    by (simp add: ex_up_ok_def ex_upstream_def create_request_def)
  let ?up = "ex_upstream (text_response 200 []) 
             (json_response 200 (JObj [(''value'', JArr [ex_mail_only_match])]))
             (text_response 200 ''created'')"
  have l2: "find_user_principal_name ?up ''contoso'' ''s3cret'' TESTER_NAME =
     (Inr (Some (JStr ''m@x.com'')), [lookup_request ''contoso'' ''s3cret'' TESTER_NAME])"
    by code_simp
  have c2: "?up (create_request ''contoso'' ''s3cret'' (JStr ''m@x.com'') ex_bug) =
      Inr (text_response 200 ''created'')"
    by (simp add: ex_upstream_def create_request_def)
  show ?thesis
    using create_bug_success [of ex_email ex_bug ex_bug ex_env "''contoso''" "''s3cret''" ex_up_ok
        "JStr ''t@x.com''" "[lookup_request ''contoso'' ''s3cret'' TESTER_NAME]"
        "json_response 200 ex_created"]
      create_bug_success [of ex_email ex_bug ex_bug ex_env "''contoso''" "''s3cret''" ?up
        "JStr ''m@x.com''" "[lookup_request ''contoso'' ''s3cret'' TESTER_NAME]"
        "text_response 200 ''created''"]
      ex_bug_valid ex_env_config ex_lookup_ok c1 l2 c2
    by (simp add: json_response_def text_response_def)
qed

subsection \<open>Tester not found\<close>




subsection \<open>How the lookup picks an identifier\<close>

text \<open>
  Claim C10. On a lookup response with a status below 400 that is a JSON object with a
  user list, \<^verbatim>\<open>find_user_principal_name\<close> makes one call and returns the identifier of
  the first entry that matches and has one. An entry matches when its name equals the
  searched name after stripping surrounding whitespace and lowercasing both sides (so
  case and padding of a name do not matter); the identifier of an entry is its
  \<^verbatim>\<open>principalName\<close>, or its \<^verbatim>\<open>mailAddress\<close> when the \<^verbatim>\<open>principalName\<close> is absent.
  A matching entry with neither is passed over: when no matching entry has an
  identifier the lookup returns none, although a name matches, as on the response whose
  only entry is the tester's name without identifiers. The entries the loop visits are
  taken to have a string for a name (on any other name the loop raises); entries after
  the one that yields the identifier are not looked at.
\<close>

theorem tester_lookup_rules:
  assumes "up (lookup_request org pat d) = Inr resp"
    and "status_code resp < 400"
    and "resp_json resp = Inr data"
    and "users_of data = Inr (JArr users)"
  shows "((\<forall>v \<in> set users. \<exists>n. user_name v = Inr (JStr n)) \<longrightarrow>
            find_user_principal_name up org pat d =
              (Inr (first_identifier d users), [lookup_request org pat d])) \<and>
         (users = pre @ u # post \<and>
          (\<forall>v \<in> set pre. (\<exists>n. user_name v = Inr (JStr n)) \<and>
             (name_matches d v \<longrightarrow> identifier_of v = None)) \<and>
          name_matches d u \<and> identifier_of u = Some i \<longrightarrow>
            find_user_principal_name up org pat d =
              (Inr (Some i), [lookup_request org pat d])) \<and>
         ((\<forall>v \<in> set users. (\<exists>n. user_name v = Inr (JStr n)) \<and>
             (name_matches d v \<longrightarrow> identifier_of v = None)) \<longrightarrow>
            find_user_principal_name up org pat d =
              (Inr None, [lookup_request org pat d])) \<and>
         py_lower (py_strip (py_lower n)) = py_lower (py_strip n) \<and>
         (list_all py_isspace a \<and> list_all py_isspace b \<longrightarrow>
            py_lower (py_strip (a @ n @ b)) = py_lower (py_strip n)) \<and>
         (name_matches TESTER_NAME ex_nameless_match \<and>
          fst (find_user_principal_name ex_up_nameless org pat TESTER_NAME) = Inr None)"
proof -
  have link: "find_user_principal_name up org pat d =
      (find_user_loop d users, [lookup_request org pat d])"
    using assms by (simp add: find_user_principal_name_def Let_def)
  have main: "(\<forall>v \<in> set users. \<exists>n. user_name v = Inr (JStr n)) \<longrightarrow>
      find_user_principal_name up org pat d =
        (Inr (first_identifier d users), [lookup_request org pat d])"
    using link find_user_loop_first_identifier [of users d] by simp
  have found: "users = pre @ u # post \<and>
      (\<forall>v \<in> set pre. (\<exists>n. user_name v = Inr (JStr n)) \<and>
         (name_matches d v \<longrightarrow> identifier_of v = None)) \<and>
      name_matches d u \<and> identifier_of u = Some i \<longrightarrow>
      find_user_principal_name up org pat d = (Inr (Some i), [lookup_request org pat d])"
    using link find_user_loop_found [of pre d u i post] by simp
  have none: "(\<forall>v \<in> set users. (\<exists>n. user_name v = Inr (JStr n)) \<and>
         (name_matches d v \<longrightarrow> identifier_of v = None)) \<longrightarrow>
      find_user_principal_name up org pat d = (Inr None, [lookup_request org pat d])"
    using main first_identifier_none [of users d] by auto
  have low: "py_lower (py_strip (py_lower n)) = py_lower (py_strip n)"
    by (simp add: py_strip_lower py_lower_idem)
  have pad: "list_all py_isspace a \<and> list_all py_isspace b \<longrightarrow>
      py_lower (py_strip (a @ n @ b)) = py_lower (py_strip n)"
    by (simp add: py_strip_padding)
  have ex2: "name_matches TESTER_NAME ex_nameless_match"
    using ex_nameless_name by (simp add: name_matches_def)
  have attr: "user_attr ex_nameless_match ''principalName'' = Inr JNull"
      "user_attr ex_nameless_match ''mailAddress'' = Inr JNull"
    by (simp_all add: ex_nameless_match_def user_attr_def dict_get_def)
  have "find_user_loop TESTER_NAME [ex_nameless_match] = Inr None"
    using ex_nameless_name attr by (simp add: names_equal_def)
  then have ex3: "fst (find_user_principal_name ex_up_nameless org pat TESTER_NAME) = Inr None"
    by (simp add: find_user_principal_name_def Let_def ex_up_nameless_def ex_upstream_def
        lookup_request_def json_response_def users_of_def dict_get_def)
  show ?thesis
    using main found none low pad ex2 ex3 by blast
qed

text \<open>
  A response that lists another person, the tester without identifiers, the tester with a
  \<^verbatim>\<open>mailAddress\<close> only, and the tester with a \<^verbatim>\<open>principalName\<close>: the lookup returns
  the mail address.
\<close>

theorem tester_lookup_rules_witness:
  "user_name ex_other_entry = Inr (JStr ''Otra Persona'') \<and>
   user_name ex_nameless_match = Inr (JStr TESTER_NAME) \<and>
   user_name ex_mail_only_match = Inr (JStr ''antony daniel gutierrez salgado'') \<and>
   user_name ex_tester_entry = Inr (JStr ''  ANTONY Daniel Gutierrez Salgado '') \<and>
   find_user_principal_name ex_up_mail_first ''contoso'' ''s3cret'' TESTER_NAME =
     (Inr (Some (JStr ''m@x.com'')), [lookup_request ''contoso'' ''s3cret'' TESTER_NAME])"
proof -
  let ?users = "[ex_other_entry, ex_nameless_match, ex_mail_only_match, ex_tester_entry]"
  let ?data = "JObj [(''value'', JArr ?users)]"
  have r: "ex_up_mail_first (lookup_request ''contoso'' ''s3cret'' TESTER_NAME) =
      Inr (json_response 200 ?data)"
    by (simp add: ex_up_mail_first_def ex_upstream_def lookup_request_def)
  have s: "status_code (json_response 200 ?data) < 400"
    and j: "resp_json (json_response 200 ?data) = Inr ?data"
    by (simp_all add: json_response_def)
  have u: "users_of ?data = Inr (JArr ?users)"
    by (simp add: users_of_def dict_get_def py_or_def)
  have n: "\<forall>u \<in> set ?users. \<exists>n. user_name u = Inr (JStr n)"
    using ex_names ex_nameless_name by simp
  have "find_user_principal_name ex_up_mail_first ''contoso'' ''s3cret'' TESTER_NAME =
     (Inr (first_identifier TESTER_NAME ?users),
      [lookup_request ''contoso'' ''s3cret'' TESTER_NAME])"
    using tester_lookup_rules [where up = ex_up_mail_first and org = "''contoso''"
        and pat = "''s3cret''" and d = TESTER_NAME and resp = "json_response 200 ?data"
        and data = ?data and users = ?users] r s j u n
    by blast
  then show ?thesis
    using ex_names ex_nameless_name ex_first_identifier by simp
qed

subsection \<open>Decimal rendering\<close>

text \<open>\<open>str_int\<close> writes the decimal numeral of its argument: reading it back gives the number.\<close>

lemma digit_char_facts:
  assumes "d < 10"
  shows "is_digit (digit_char d)" and "digit_val (digit_char d) = d"
    and "digit_char d \<noteq> CHR ''-''"
proof -
  from assms have "d \<in> {0, 1, 2, 3, 4, 5, 6, 7, 8, 9}" by auto
  then show "is_digit (digit_char d)" and "digit_val (digit_char d) = d"
    and "digit_char d \<noteq> CHR ''-''"
    by (auto simp: digit_char_def is_digit_def digit_val_def)
qed

lemma decimal_nat_snoc: "decimal_nat (xs @ [c]) = 10 * decimal_nat xs + digit_val c"
  by (simp add: decimal_nat_def)

lemma str_nat_digits: "list_all is_digit (str_nat n) \<and> str_nat n \<noteq> []"
proof (induction n rule: str_nat.induct)
  case (1 n)
  show ?case
  proof (cases "n < 10")
    case True
    then show ?thesis by (simp add: str_nat.simps [of n] digit_char_facts)
  next
    case False
    with 1 show ?thesis by (simp add: str_nat.simps [of n] digit_char_facts)
  qed
qed

lemma decimal_nat_str_nat: "decimal_nat (str_nat n) = n"
proof (induction n rule: str_nat.induct)
  case (1 n)
  show ?case
  proof (cases "n < 10")
    case True
    then show ?thesis
      by (simp add: str_nat.simps [of n] decimal_nat_def digit_char_facts)
  next
    case False
    with 1 have "decimal_nat (str_nat (n div 10)) = n div 10" by simp
    with False show ?thesis
      by (simp add: str_nat.simps [of n] decimal_nat_snoc digit_char_facts)
  qed
qed

lemma str_nat_hd: "\<exists>c cs. str_nat n = c # cs \<and> c \<noteq> CHR ''-''"
proof -
  obtain c cs where e: "str_nat n = c # cs"
    using str_nat_digits [of n] by (cases "str_nat n") auto
  then have "is_digit c" using str_nat_digits [of n] by simp
  then have "c \<noteq> CHR ''-''" by (auto simp: is_digit_def)
  with e show ?thesis by blast
qed

lemma decimal_int_str_int: "decimal_int (str_int i) = Some i"
proof (cases "i < 0")
  case True
  then show ?thesis
    using str_nat_digits [of "nat (- i)"]
    by (simp add: decimal_int_def str_int_def decimal_nat_str_nat)
next
  case False
  obtain c cs where e: "str_nat (nat i) = c # cs" "c \<noteq> CHR ''-''"
    using str_nat_hd by blast
  have "list_all is_digit (c # cs)" and "decimal_nat (c # cs) = nat i"
    using str_nat_digits [of "nat i"] decimal_nat_str_nat [of "nat i"] e(1) by simp_all
  with False e show ?thesis
    by (simp add: decimal_int_def str_int_def)
qed

subsection \<open>The patch document: auxiliary facts\<close>

lemma app_post_calls:
  assumes "BugCreateRequest_validate ev raw = Inr rb"
    and "get_azure_config env = Inr (org, pat)"
    and "find_user_principal_name up org pat TESTER_NAME = (Inr (Some t), calls)"
  shows "snd (app ev env up (POST_bugs raw)) = calls @ [create_request org pat t rb]"
  using assms(1) create_bug_found [OF assms(2,3), of rb]
  by (simp add: respond_def Let_def split: sum.splits)

lemma create_request_body:
  "body (create_request org pat t rb) =
     Some (JArr (patch_ops org t (fechaInicioPlaneada rb @ ''T00:00:00-05:00'') rb))"
  by (simp add: create_request_def Let_def)

lemma create_request_meth: "meth (create_request org pat t rb) = ''POST''"
  by (simp add: create_request_def Let_def)

lemma validate_keeps:
  "BugCreateRequest_validate ev raw = Inr rb \<Longrightarrow>
     fechaInicioPlaneada rb = fechaInicioPlaneada raw \<and> tareaAsociada rb = tareaAsociada raw"
  by (auto simp: validate_Inr_iff)

lemma values_at_fecha:
  "values_at ''/fields/Custom.FechaInicioPlaneada'' (patch_ops org t f rb) = [Some (JStr f)]"
  by (simp add: values_at_def patch_ops_def add_op_def op_field_def)

lemma values_at_tarea:
  "values_at ''/fields/Custom.Tareaasociada'' (patch_ops org t f rb) =
     [Some (JStr (str_int (tareaAsociada rb)))]"
  by (simp add: values_at_def patch_ops_def add_op_def op_field_def)

lemma patch_ops_length: "length (patch_ops org t f rb) = 18"
  by (simp add: patch_ops_def)

lemma patch_ops_paths:
  "map (op_field ''path'') (patch_ops org t f rb) =
     map (\<lambda>p. Some (JStr p))
       (take 7 (map fst mapped_input_fields) @
        [''/fields/Microsoft.VSTS.Common.ValueArea'', ''/fields/Custom.Tester''] @
        drop 7 (map fst mapped_input_fields) @ [''/relations/-''])"
  by (simp add: patch_ops_def add_op_def op_field_def mapped_input_fields_def)

lemma patch_ops_distinct: "distinct (map (op_field ''path'') (patch_ops org t f rb))"
  by (simp add: patch_ops_def add_op_def op_field_def)

lemma patch_ops_all_add:
  "\<forall>e \<in> set (patch_ops org t f rb). op_field ''op'' e = Some (JStr ''add'')"
  by (simp add: patch_ops_def add_op_def op_field_def)

lemma patch_ops_mapped:
  "\<forall>(p, g) \<in> set mapped_input_fields.
     values_at p (patch_ops org t (fechaInicioPlaneada rb @ ''T00:00:00-05:00'') rb) =
       [Some (g rb)]"
  by (simp add: mapped_input_fields_def values_at_def patch_ops_def add_op_def op_field_def)

lemma patch_ops_others:
  "values_at ''/relations/-'' (patch_ops org t f rb) = [Some (parent_link org rb)]"
  "values_at ''/fields/Microsoft.VSTS.Common.ValueArea'' (patch_ops org t f rb) =
     [Some (JStr ''Business'')]"
  "values_at ''/fields/Custom.Tester'' (patch_ops org t f rb) = [Some t]"
  by (simp_all add: values_at_def patch_ops_def add_op_def op_field_def parent_link_def
      parent_url_def)

lemma mapped_input_fields_facts:
  "length mapped_input_fields = 15"
  "distinct (map fst mapped_input_fields)"
  "''/fields/Microsoft.VSTS.Common.ValueArea'' \<notin> set (map fst mapped_input_fields)"
  "''/fields/Custom.Tester'' \<notin> set (map fst mapped_input_fields)"
  "''/relations/-'' \<notin> set (map fst mapped_input_fields)"
  by (simp_all add: mapped_input_fields_def)

subsection \<open>The planned start date and the associated task\<close>

text \<open>
  Claim C9. For a \<^verbatim>\<open>POST /bugs\<close> whose body passes validation, with the configuration
  present and a tester lookup that returns an identifier, the creation call is made and
  its patch document gives \<^verbatim>\<open>/fields/Custom.FechaInicioPlaneada\<close> exactly one value,
  the input string \<^verbatim>\<open>fechaInicioPlaneada\<close> followed by \<^verbatim>\<open>T00:00:00-05:00\<close>, and gives
  \<^verbatim>\<open>/fields/Custom.Tareaasociada\<close> exactly one value, the string \<^verbatim>\<open>str(tareaAsociada)\<close>,
  which is the decimal numeral of the integer.
\<close>

theorem fecha_and_tarea_sent:
  assumes "BugCreateRequest_validate ev raw = Inr rb"
    and "get_azure_config env = Inr (org, pat)"
    and "find_user_principal_name up org pat TESTER_NAME = (Inr (Some t), calls)"
  shows "\<exists>req ops.
           snd (app ev env up (POST_bugs raw)) = calls @ [req] \<and>
           meth req = ''POST'' \<and> body req = Some (JArr ops) \<and>
           values_at ''/fields/Custom.FechaInicioPlaneada'' ops =
             [Some (JStr (fechaInicioPlaneada raw @ ''T00:00:00-05:00''))] \<and>
           values_at ''/fields/Custom.Tareaasociada'' ops =
             [Some (JStr (str_int (tareaAsociada raw)))] \<and>
           decimal_int (str_int (tareaAsociada raw)) = Some (tareaAsociada raw)"
proof -
  let ?req = "create_request org pat t rb"
  let ?ops = "patch_ops org t (fechaInicioPlaneada rb @ ''T00:00:00-05:00'') rb"
  have "snd (app ev env up (POST_bugs raw)) = calls @ [?req]"
    using assms by (rule app_post_calls)
  moreover have "meth ?req = ''POST''" and "body ?req = Some (JArr ?ops)"
    by (simp_all add: create_request_body create_request_meth)
  moreover have "values_at ''/fields/Custom.FechaInicioPlaneada'' ?ops =
      [Some (JStr (fechaInicioPlaneada raw @ ''T00:00:00-05:00''))]"
    using validate_keeps [OF assms(1)] by (simp add: values_at_fecha)
  moreover have "values_at ''/fields/Custom.Tareaasociada'' ?ops =
      [Some (JStr (str_int (tareaAsociada raw)))]"
    using validate_keeps [OF assms(1)] by (simp add: values_at_tarea)
  ultimately show ?thesis
    using decimal_int_str_int by blast
qed

text \<open>The example request: date \<^verbatim>\<open>2024-03-15\<close>, task 1205.\<close>

theorem fecha_and_tarea_sent_witness:
  "\<exists>req ops.
     snd (app ex_email ex_env ex_up_ok (POST_bugs ex_bug)) =
       [lookup_request ''contoso'' ''s3cret'' TESTER_NAME, req] \<and>
     body req = Some (JArr ops) \<and>
     values_at ''/fields/Custom.FechaInicioPlaneada'' ops =
       [Some (JStr ''2024-03-15T00:00:00-05:00'')] \<and>
     values_at ''/fields/Custom.Tareaasociada'' ops = [Some (JStr ''1205'')]"
proof -
  have s: "str_int 1205 = ''1205''"
    by code_simp
  have f: "fechaInicioPlaneada ex_bug @ ''T00:00:00-05:00'' = ''2024-03-15T00:00:00-05:00''"
    and t: "tareaAsociada ex_bug = 1205"
    by (simp_all add: ex_bug_def)
  obtain req ops where
    "snd (app ex_email ex_env ex_up_ok (POST_bugs ex_bug)) =
       [lookup_request ''contoso'' ''s3cret'' TESTER_NAME] @ [req]"
    "body req = Some (JArr ops)"
    "values_at ''/fields/Custom.FechaInicioPlaneada'' ops =
       [Some (JStr (fechaInicioPlaneada ex_bug @ ''T00:00:00-05:00''))]"
    "values_at ''/fields/Custom.Tareaasociada'' ops =
       [Some (JStr (str_int (tareaAsociada ex_bug)))]"
    using fecha_and_tarea_sent [OF ex_bug_valid ex_env_config ex_lookup_ok] by blast
  then have
    "snd (app ex_email ex_env ex_up_ok (POST_bugs ex_bug)) =
       [lookup_request ''contoso'' ''s3cret'' TESTER_NAME, req] \<and>
     body req = Some (JArr ops) \<and>
     values_at ''/fields/Custom.FechaInicioPlaneada'' ops =
       [Some (JStr ''2024-03-15T00:00:00-05:00'')] \<and>
     values_at ''/fields/Custom.Tareaasociada'' ops = [Some (JStr ''1205'')]"
    by (simp only: f t s append.simps simp_thms)
  then show ?thesis by blast
qed

subsection \<open>The entries of the patch document\<close>

text \<open>
  Claim C2, as stated, fails. The document sent for the example request has eighteen
  entries, not the sixteen that one entry per mapped input field and one relation link
  make: among them is an entry for \<^verbatim>\<open>/fields/Microsoft.VSTS.Common.ValueArea\<close> with the
  constant \<^verbatim>\<open>Business\<close>, which is neither the entry of an input field nor the relation
  link.
\<close>

theorem patch_document_has_other_entries:
  "snd (app ex_email ex_env ex_up_ok (POST_bugs ex_bug)) =
     [lookup_request ''contoso'' ''s3cret'' TESTER_NAME,
      create_request ''contoso'' ''s3cret'' (JStr ''t@x.com'') ex_bug] \<and>
   body (create_request ''contoso'' ''s3cret'' (JStr ''t@x.com'') ex_bug) =
     Some (JArr (patch_ops ''contoso'' (JStr ''t@x.com'') ''2024-03-15T00:00:00-05:00'' ex_bug)) \<and>
   length (patch_ops ''contoso'' (JStr ''t@x.com'') ''2024-03-15T00:00:00-05:00'' ex_bug) = 18 \<and>
   length mapped_input_fields + 1 = 16 \<and>
   values_at ''/fields/Microsoft.VSTS.Common.ValueArea''
     (patch_ops ''contoso'' (JStr ''t@x.com'') ''2024-03-15T00:00:00-05:00'' ex_bug) =
     [Some (JStr ''Business'')] \<and>
   ''/fields/Microsoft.VSTS.Common.ValueArea'' \<notin> set (map fst mapped_input_fields) \<and>
   ''/fields/Microsoft.VSTS.Common.ValueArea'' \<noteq> ''/relations/-''"
proof -
  have f: "fechaInicioPlaneada ex_bug @ ''T00:00:00-05:00'' = ''2024-03-15T00:00:00-05:00''"
    by (simp add: ex_bug_def)
  have "snd (app ex_email ex_env ex_up_ok (POST_bugs ex_bug)) =
     [lookup_request ''contoso'' ''s3cret'' TESTER_NAME] @
     [create_request ''contoso'' ''s3cret'' (JStr ''t@x.com'') ex_bug]"
    using ex_bug_valid ex_env_config ex_lookup_ok by (rule app_post_calls)
  moreover have "body (create_request ''contoso'' ''s3cret'' (JStr ''t@x.com'') ex_bug) =
     Some (JArr (patch_ops ''contoso'' (JStr ''t@x.com'') ''2024-03-15T00:00:00-05:00'' ex_bug))"
    using create_request_body [of "''contoso''" "''s3cret''" "JStr ''t@x.com''" ex_bug]
    by (simp only: f)
  moreover have "length mapped_input_fields + 1 = 16"
    by (simp add: mapped_input_fields_facts(1))
  moreover have "''/fields/Microsoft.VSTS.Common.ValueArea'' \<noteq> ''/relations/-''"
    by simp
  moreover note patch_ops_length [of "''contoso''" "JStr ''t@x.com''"
      "''2024-03-15T00:00:00-05:00''" ex_bug]
    patch_ops_others(2) [of "''contoso''" "JStr ''t@x.com''"
      "''2024-03-15T00:00:00-05:00''" ex_bug]
    mapped_input_fields_facts(3)
  ultimately show ?thesis
    by (simp only: append.simps simp_thms)
qed

text \<open>
  Claim C2, amended. For a \<^verbatim>\<open>POST /bugs\<close> whose body passes validation, with the
  configuration present and a tester lookup that returns an identifier, the patch
  document of the creation call has eighteen entries, all of them \<^verbatim>\<open>add\<close> operations
  with pairwise distinct paths: exactly one for each of the fifteen mapped input fields,
  at its fixed path and with the field's value; exactly one relation link at
  \<^verbatim>\<open>/relations/-\<close> whose URL ends in the decimal numeral of \<^verbatim>\<open>userStoryId\<close>; one for
  \<^verbatim>\<open>/fields/Microsoft.VSTS.Common.ValueArea\<close> with the constant \<^verbatim>\<open>Business\<close>; and one
  for \<^verbatim>\<open>/fields/Custom.Tester\<close> with the identifier the tester lookup returned.
\<close>

theorem patch_document_entries:
  assumes "BugCreateRequest_validate ev raw = Inr rb"
    and "get_azure_config env = Inr (org, pat)"
    and "find_user_principal_name up org pat TESTER_NAME = (Inr (Some t), calls)"
  shows "\<exists>req ops.
           snd (app ev env up (POST_bugs raw)) = calls @ [req] \<and>
           meth req = ''POST'' \<and> body req = Some (JArr ops) \<and>
           length ops = 18 \<and>
           distinct (map (op_field ''path'') ops) \<and>
           (\<forall>e \<in> set ops. op_field ''op'' e = Some (JStr ''add'')) \<and>
           length mapped_input_fields = 15 \<and>
           distinct (map fst mapped_input_fields) \<and>
           (\<forall>(p, g) \<in> set mapped_input_fields. values_at p ops = [Some (g rb)]) \<and>
           values_at ''/relations/-'' ops =
             [Some (JObj [(''rel'', JStr ''System.LinkTypes.Hierarchy-Reverse''),
                          (''url'', JStr (''https://dev.azure.com/'' @ org @ ''/'' @ project rb @
                                          ''/_apis/wit/workItems/'' @ str_int (userStoryId rb))),
                          (''attributes'', JObj [(''comment'', JStr ''Parent User Story'')])])] \<and>
           values_at ''/fields/Microsoft.VSTS.Common.ValueArea'' ops = [Some (JStr ''Business'')] \<and>
           values_at ''/fields/Custom.Tester'' ops = [Some t]"
proof -
  let ?req = "create_request org pat t rb"
  let ?ops = "patch_ops org t (fechaInicioPlaneada rb @ ''T00:00:00-05:00'') rb"
  have "snd (app ev env up (POST_bugs raw)) = calls @ [?req]"
    using assms by (rule app_post_calls)
  moreover have "meth ?req = ''POST''" and "body ?req = Some (JArr ?ops)"
    by (simp_all add: create_request_body create_request_meth)
  moreover have "length ?ops = 18"
    by (rule patch_ops_length)
  moreover have "distinct (map (op_field ''path'') ?ops)"
    by (rule patch_ops_distinct)
  moreover have "\<forall>e \<in> set ?ops. op_field ''op'' e = Some (JStr ''add'')"
    by (rule patch_ops_all_add)
  moreover have "\<forall>(p, g) \<in> set mapped_input_fields. values_at p ?ops = [Some (g rb)]"
    by (rule patch_ops_mapped)
  moreover have "values_at ''/relations/-'' ?ops =
      [Some (JObj [(''rel'', JStr ''System.LinkTypes.Hierarchy-Reverse''),
                   (''url'', JStr (''https://dev.azure.com/'' @ org @ ''/'' @ project rb @
                                   ''/_apis/wit/workItems/'' @ str_int (userStoryId rb))),
                   (''attributes'', JObj [(''comment'', JStr ''Parent User Story'')])])]"
    by (simp only: patch_ops_others parent_link_def)
  moreover have "values_at ''/fields/Microsoft.VSTS.Common.ValueArea'' ?ops =
      [Some (JStr ''Business'')]"
    and "values_at ''/fields/Custom.Tester'' ?ops = [Some t]"
    by (simp_all only: patch_ops_others)
  ultimately show ?thesis
    using mapped_input_fields_facts(1,2) by blast
qed

theorem patch_document_entries_witness:
  "\<exists>req ops.
     snd (app ex_email ex_env ex_up_ok (POST_bugs ex_bug)) =
       [lookup_request ''contoso'' ''s3cret'' TESTER_NAME, req] \<and>
     body req = Some (JArr ops) \<and> length ops = 18 \<and>
     values_at ''/fields/System.Title'' ops = [Some (JStr ''Login falla'')] \<and>
     values_at ''/fields/Custom.Tester'' ops = [Some (JStr ''t@x.com'')]"
proof -
  obtain req ops where
    r: "snd (app ex_email ex_env ex_up_ok (POST_bugs ex_bug)) =
       [lookup_request ''contoso'' ''s3cret'' TESTER_NAME] @ [req]"
      "body req = Some (JArr ops)" "length ops = 18"
      "values_at ''/fields/Custom.Tester'' ops = [Some (JStr ''t@x.com'')]"
    and m: "\<forall>(p, g) \<in> set mapped_input_fields. values_at p ops = [Some (g ex_bug)]"
    using patch_document_entries [OF ex_bug_valid ex_env_config ex_lookup_ok] by blast
  have "(''/fields/System.Title'', \<lambda>r. JStr (title r)) \<in> set mapped_input_fields"
    by (simp add: mapped_input_fields_def)
  with m have "values_at ''/fields/System.Title'' ops = [Some (JStr (title ex_bug))]"
    by (auto dest: bspec)
  then have "values_at ''/fields/System.Title'' ops = [Some (JStr ''Login falla'')]"
    by (simp add: ex_bug_def)
  with r show ?thesis by auto
qed

subsection \<open>Upstream failures\<close>

text \<open>
  Claim C1, as stated, fails. When the upstream answers the tester lookup with status
  500, \<^verbatim>\<open>POST /bugs\<close> answers 404 (tester not found), not 502, and the upstream
  status and body are not in the reply. And a status that is not 2xx is not always a
  failure for the code: a 302 at the projects fetch is passed on with status 200.
\<close>

theorem lookup_failure_not_502:
  "ex_up_lookup_500 (lookup_request ''contoso'' ''s3cret'' TESTER_NAME) =
     Inr (text_response 500 ''Internal Server Error'') \<and>
   app ex_email ex_env ex_up_lookup_500 (POST_bugs ex_bug) =
     (JSONResponse 404 (JObj [(''detail'', JStr tester_not_found_message)]),
      [lookup_request ''contoso'' ''s3cret'' TESTER_NAME]) \<and>
   ex_up_projects_302 (projects_request ''contoso'' ''s3cret'') =
     Inr (json_response 302 ex_projects) \<and>
   fst (app ex_email ex_env ex_up_projects_302 GET_projects) = JSONResponse 200 ex_projects"
  by code_simp

lemma ex_lookup_ok_create_400:
  "find_user_principal_name ex_up_create_400 ''contoso'' ''s3cret'' TESTER_NAME =
     (Inr (Some (JStr ''t@x.com'')), [lookup_request ''contoso'' ''s3cret'' TESTER_NAME])"
  by code_simp

text \<open>
  Claim C1, amended. With the configuration present: an upstream status of 400 or more
  at the projects fetch, or at the bug-creation write, is surfaced to the caller as a 502
  whose detail carries the upstream status and the upstream body (the parsed JSON, or the
  raw text when it does not parse); an upstream status of 400 or more at the
  tester-entitlements lookup is surfaced as the 404 tester-not-found error, without the
  upstream status or body, and the creation call is not made.
\<close>

theorem upstream_failures:
  assumes "get_azure_config env = Inr (org, pat)"
  shows "(up (projects_request org pat) = Inr resp \<and> status_code resp \<ge> 400 \<longrightarrow>
            fst (app ev env up GET_projects) =
              JSONResponse 502
                (JObj [(''detail'',
                   JObj [(''message'', JStr ''Azure DevOps API error fetching projects''),
                         (''azure_status'', JInt (status_code resp)),
                         (''azure_response'',
                            (case resp_json resp of
                               Inr b \<Rightarrow> b
                             | Inl e \<Rightarrow> JObj [(''raw_text'', JStr (resp_text resp))]))])])) \<and>
         (BugCreateRequest_validate ev raw = Inr rb \<and>
          find_user_principal_name up org pat TESTER_NAME = (Inr (Some t), calls) \<and>
          up (create_request org pat t rb) = Inr resp \<and> status_code resp \<ge> 400 \<longrightarrow>
            fst (app ev env up (POST_bugs raw)) =
              JSONResponse 502
                (JObj [(''detail'',
                   JObj [(''message'', JStr ''Azure DevOps API error creating bug''),
                         (''azure_status'', JInt (status_code resp)),
                         (''azure_response'',
                            (case resp_json resp of
                               Inr b \<Rightarrow> b
                             | Inl e \<Rightarrow> JObj [(''raw_text'', JStr (resp_text resp))]))])])) \<and>
         (BugCreateRequest_validate ev raw = Inr rb \<and>
          up (lookup_request org pat TESTER_NAME) = Inr resp \<and> status_code resp \<ge> 400 \<longrightarrow>
            app ev env up (POST_bugs raw) =
              (JSONResponse 404 (JObj [(''detail'', JStr tester_not_found_message)]),
               [lookup_request org pat TESTER_NAME]))"
proof (intro conjI impI)
  assume "up (projects_request org pat) = Inr resp \<and> status_code resp \<ge> 400"
  then show "fst (app ev env up GET_projects) =
      JSONResponse 502
        (JObj [(''detail'',
           JObj [(''message'', JStr ''Azure DevOps API error fetching projects''),
                 (''azure_status'', JInt (status_code resp)),
                 (''azure_response'',
                    (case resp_json resp of
                       Inr b \<Rightarrow> b
                     | Inl e \<Rightarrow> JObj [(''raw_text'', JStr (resp_text resp))]))])])"
    using assms by (simp add: list_projects_def respond_def json_or_raw_text_def)
next
  assume a: "BugCreateRequest_validate ev raw = Inr rb \<and>
    find_user_principal_name up org pat TESTER_NAME = (Inr (Some t), calls) \<and>
    up (create_request org pat t rb) = Inr resp \<and> status_code resp \<ge> 400"
  then have "create_bug env up rb =
      (Inl (HTTPException 502
         (JObj [(''message'', JStr ''Azure DevOps API error creating bug''),
                (''azure_status'', JInt (status_code resp)),
                (''azure_response'', json_or_raw_text resp)])),
       calls @ [create_request org pat t rb])"
    using create_bug_found [OF assms, of up t calls rb] by simp
  with a show "fst (app ev env up (POST_bugs raw)) =
      JSONResponse 502
        (JObj [(''detail'',
           JObj [(''message'', JStr ''Azure DevOps API error creating bug''),
                 (''azure_status'', JInt (status_code resp)),
                 (''azure_response'',
                    (case resp_json resp of
                       Inr b \<Rightarrow> b
                     | Inl e \<Rightarrow> JObj [(''raw_text'', JStr (resp_text resp))]))])])"
    by (simp add: respond_def json_or_raw_text_def)
next
  assume a: "BugCreateRequest_validate ev raw = Inr rb \<and>
    up (lookup_request org pat TESTER_NAME) = Inr resp \<and> status_code resp \<ge> 400"
  then have "find_user_principal_name up org pat TESTER_NAME =
      (Inr None, [lookup_request org pat TESTER_NAME])"
    by (simp add: lookup_failed)
  then have "create_bug env up rb =
      (Inl (HTTPException 404 (JStr tester_not_found_message)),
       [lookup_request org pat TESTER_NAME])"
    using assms by (rule create_bug_not_found [rotated])
  with a show "app ev env up (POST_bugs raw) =
      (JSONResponse 404 (JObj [(''detail'', JStr tester_not_found_message)]),
       [lookup_request org pat TESTER_NAME])"
    by (simp add: respond_def)
qed

text \<open>A 400 at the creation call, a 500 at the lookup, a 503 at the projects fetch.\<close>

theorem upstream_failures_witness:
  "fst (app ex_email ex_env ex_up_create_400 (POST_bugs ex_bug)) =
     JSONResponse 502
       (JObj [(''detail'',
          JObj [(''message'', JStr ''Azure DevOps API error creating bug''),
                (''azure_status'', JInt 400),
                (''azure_response'', JObj [(''raw_text'', JStr ''Bad Request'')])])]) \<and>
   app ex_email ex_env ex_up_lookup_500 (POST_bugs ex_bug) =
     (JSONResponse 404 (JObj [(''detail'', JStr tester_not_found_message)]),
      [lookup_request ''contoso'' ''s3cret'' TESTER_NAME]) \<and>
   fst (app ex_email ex_env ex_up_lookup_500 GET_projects) = JSONResponse 200 ex_projects \<and>
   fst (app ex_email ex_env
          (ex_upstream (text_response 503 ''Unavailable'') (text_response 503 [])
             (text_response 503 [])) GET_projects) =
     JSONResponse 502
       (JObj [(''detail'',
          JObj [(''message'', JStr ''Azure DevOps API error fetching projects''),
                (''azure_status'', JInt 503),
                (''azure_response'', JObj [(''raw_text'', JStr ''Unavailable'')])])])"
proof -
  let ?up503 = "ex_upstream (text_response 503 ''Unavailable'') (text_response 503 [])
             (text_response 503 [])"
  have c: "ex_up_create_400 (create_request ''contoso'' ''s3cret'' (JStr ''t@x.com'') ex_bug) =
      Inr (text_response 400 ''Bad Request'')"
    by (simp add: ex_up_create_400_def ex_upstream_def create_request_def)
  have l: "ex_up_lookup_500 (lookup_request ''contoso'' ''s3cret'' TESTER_NAME) =
      Inr (text_response 500 ''Internal Server Error'')"
    by (simp add: ex_up_lookup_500_def ex_upstream_def lookup_request_def)
  have p: "?up503 (projects_request ''contoso'' ''s3cret'') = Inr (text_response 503 ''Unavailable'')"
    by (simp add: ex_upstream_def projects_request_def)
  have s: "status_code (text_response 400 ''Bad Request'') \<ge> 400"
    "status_code (text_response 500 ''Internal Server Error'') \<ge> 400"
    "status_code (text_response 503 ''Unavailable'') \<ge> 400"
    by (simp_all add: text_response_def)
  have g: "fst (app ex_email ex_env ex_up_lookup_500 GET_projects) = JSONResponse 200 ex_projects"
    by code_simp
  have "fst (app ex_email ex_env ex_up_create_400 (POST_bugs ex_bug)) =
     JSONResponse 502
       (JObj [(''detail'',
          JObj [(''message'', JStr ''Azure DevOps API error creating bug''),
                (''azure_status'', JInt 400),
                (''azure_response'', JObj [(''raw_text'', JStr ''Bad Request'')])])])"
    using upstream_failures [OF ex_env_config, where up = ex_up_create_400 and ev = ex_email
        and raw = ex_bug and rb = ex_bug and t = "JStr ''t@x.com''"
        and calls = "[lookup_request ''contoso'' ''s3cret'' TESTER_NAME]"
        and resp = "text_response 400 ''Bad Request''"]
      ex_bug_valid ex_lookup_ok_create_400 c s(1)
    by (simp add: text_response_def)
  moreover have "app ex_email ex_env ex_up_lookup_500 (POST_bugs ex_bug) =
     (JSONResponse 404 (JObj [(''detail'', JStr tester_not_found_message)]),
      [lookup_request ''contoso'' ''s3cret'' TESTER_NAME])"
    using upstream_failures [OF ex_env_config, where up = ex_up_lookup_500 and ev = ex_email
        and raw = ex_bug and rb = ex_bug
        and resp = "text_response 500 ''Internal Server Error''"]
      ex_bug_valid l s(2)
    by blast
  moreover have "fst (app ex_email ex_env ?up503 GET_projects) =
     JSONResponse 502
       (JObj [(''detail'',
          JObj [(''message'', JStr ''Azure DevOps API error fetching projects''),
                (''azure_status'', JInt 503),
                (''azure_response'', JObj [(''raw_text'', JStr ''Unavailable'')])])])"
    using upstream_failures [OF ex_env_config, where up = ?up503 and ev = ex_email
        and resp = "text_response 503 ''Unavailable''"] p s(3)
    by (simp add: text_response_def)
  ultimately show ?thesis using g by blast
qed

text \<open>
  A transport failure (the client raises \<^verbatim>\<open>httpx.HTTPError\<close>) at any of the three
  calls goes to the registered handler: 502 with the error's text.
\<close>

lemma transport_failure:
  assumes "get_azure_config env = Inr (org, pat)"
  shows "(up (projects_request org pat) = Inl m \<longrightarrow>
            fst (app ev env up GET_projects) = httpx_error_handler m) \<and>
         (BugCreateRequest_validate ev raw = Inr rb \<and>
          up (lookup_request org pat TESTER_NAME) = Inl m \<longrightarrow>
            fst (app ev env up (POST_bugs raw)) = httpx_error_handler m) \<and>
         (BugCreateRequest_validate ev raw = Inr rb \<and>
          find_user_principal_name up org pat TESTER_NAME = (Inr (Some t), calls) \<and>
          up (create_request org pat t rb) = Inl m \<longrightarrow>
            fst (app ev env up (POST_bugs raw)) = httpx_error_handler m)"
proof (intro conjI impI)
  assume "up (projects_request org pat) = Inl m"
  then show "fst (app ev env up GET_projects) = httpx_error_handler m"
    using assms by (simp add: list_projects_def respond_def)
next
  assume a: "BugCreateRequest_validate ev raw = Inr rb \<and>
    up (lookup_request org pat TESTER_NAME) = Inl m"
  then have "find_user_principal_name up org pat TESTER_NAME =
      (Inl (HTTPError m), [lookup_request org pat TESTER_NAME])"
    by (simp add: find_user_principal_name_def Let_def)
  with a show "fst (app ev env up (POST_bugs raw)) = httpx_error_handler m"
    using assms by (simp add: create_bug_def respond_def)
next
  assume a: "BugCreateRequest_validate ev raw = Inr rb \<and>
    find_user_principal_name up org pat TESTER_NAME = (Inr (Some t), calls) \<and>
    up (create_request org pat t rb) = Inl m"
  then show "fst (app ev env up (POST_bugs raw)) = httpx_error_handler m"
    using create_bug_found [OF assms, of up t calls rb] by (simp add: respond_def)
qed

subsection \<open>The date format\<close>

text \<open>
  A date that the validator refuses never reaches \<^verbatim>\<open>create_bug\<close>: the reply is the 422
  validation reply with the validator's message, and no outbound call is made.
\<close>

lemma rejected_date_no_calls:
  assumes "validate_fecha (fechaInicioPlaneada raw) = Inl e"
  shows "\<exists>errs. app ev env up (POST_bugs raw) = (ValidationErrorResponse errs, []) \<and>
           ValidatorError ''fechaInicioPlaneada''
             ''fechaInicioPlaneada debe tener el formato YYYY-MM-DD'' \<in> set errs"
proof -
  let ?errs = "BugCreateRequest_errors ev raw"
  from assms have "e = ValueError ''fechaInicioPlaneada debe tener el formato YYYY-MM-DD''"
    by (auto simp: validate_fecha_def split: sum.splits)
  with assms have mem: "ValidatorError ''fechaInicioPlaneada''
      ''fechaInicioPlaneada debe tener el formato YYYY-MM-DD'' \<in> set ?errs"
    by (simp add: BugCreateRequest_errors_def fecha_errors_def)
  then have "?errs \<noteq> []" by auto
  then have "app ev env up (POST_bugs raw) = (ValidationErrorResponse ?errs, [])"
    by (rule app_rejects)
  with mem show ?thesis by blast
qed

lemma ex_unparsable_dates:
  "validate_fecha ''15/03/2024'' =
     Inl (ValueError ''fechaInicioPlaneada debe tener el formato YYYY-MM-DD'')"
  "validate_fecha ''2024-02-30'' =
     Inl (ValueError ''fechaInicioPlaneada debe tener el formato YYYY-MM-DD'')"
  "validate_fecha ''2024-03-15'' = Inr ''2024-03-15''"
  by code_simp+

text \<open>
  Claim C3 says that every \<^verbatim>\<open>fechaInicioPlaneada\<close> that is not of the form
  \<^verbatim>\<open>YYYY-MM-DD\<close> is rejected with 422 before any outbound call. The validator does not
  do that: \<^verbatim>\<open>strptime\<close> reads a month and a day of one digit, so \<^verbatim>\<open>2024-1-5\<close>, which
  is not of the form \<^verbatim>\<open>YYYY-MM-DD\<close>, is accepted; the request goes on to the lookup and
  the creation call, and the value \<^verbatim>\<open>2024-1-5T00:00:00-05:00\<close> is sent upstream.
\<close>

theorem short_date_accepted:
  "\<not> matches_YYYY_MM_DD ''2024-1-5'' \<and>
   validate_fecha ''2024-1-5'' = Inr ''2024-1-5'' \<and>
   fechaInicioPlaneada ex_bug_short_date = ''2024-1-5'' \<and>
   BugCreateRequest_validate ex_email ex_bug_short_date = Inr ex_bug_short_date \<and>
   app ex_email ex_env ex_up_ok (POST_bugs ex_bug_short_date) =
     (JSONResponse 201 ex_created,
      [lookup_request ''contoso'' ''s3cret'' TESTER_NAME,
       create_request ''contoso'' ''s3cret'' (JStr ''t@x.com'') ex_bug_short_date]) \<and>
   values_at ''/fields/Custom.FechaInicioPlaneada''
     (patch_ops ''contoso'' (JStr ''t@x.com'')
        (fechaInicioPlaneada ex_bug_short_date @ ''T00:00:00-05:00'') ex_bug_short_date) =
     [Some (JStr ''2024-1-5T00:00:00-05:00'')]"
  by code_simp

end
